theory Spec2Isabelle
  imports Main "HOL-Library.Word"
begin

section \<open>JavaScript values\<close>

text \<open>
  A JavaScript string is a sequence of UTF-16 code units; \<open>.length\<close> counts code units.
  String literals of the source are written \<open>js ''...''\<close>.
\<close>

type_synonym jsstring = "16 word list"

definition js :: "string \<Rightarrow> jsstring" where
  "js s = map of_char s"

text \<open>
  The values \<open>JSON.parse\<close> can produce, with \<open>undefined\<close> for an absent property.
  Numbers are restricted to integers: every number the handlers use is a user id, and the
  id columns of the schema are \<open>INTEGER\<close>.
\<close>

datatype jsval =
    Undefined
  | Null
  | Bool bool
  | Num int
  | Str jsstring
  | Arr "jsval list"
  | Obj "(jsstring \<times> jsval) list"

text \<open>Property access \<open>v.k\<close>: own property of an object, \<open>undefined\<close> otherwise.\<close>

fun get_prop :: "jsval \<Rightarrow> jsstring \<Rightarrow> jsval" where
  "get_prop (Obj kvs) k = (case map_of kvs k of Some v \<Rightarrow> v | None \<Rightarrow> Undefined)"
| "get_prop _ k = Undefined"

text \<open>\<open>typeof v\<close>; arrays and \<open>null\<close> are objects.\<close>

fun typeof :: "jsval \<Rightarrow> string" where
  "typeof Undefined = ''undefined''"
| "typeof Null = ''object''"
| "typeof (Bool _) = ''boolean''"
| "typeof (Num _) = ''number''"
| "typeof (Str _) = ''string''"
| "typeof (Arr _) = ''object''"
| "typeof (Obj _) = ''object''"

text \<open>Truthiness, as \<open>!v\<close> and \<open>if (v)\<close> read it.\<close>

fun truthy :: "jsval \<Rightarrow> bool" where
  "truthy Undefined = False"
| "truthy Null = False"
| "truthy (Bool b) = b"
| "truthy (Num n) = (n \<noteq> 0)"
| "truthy (Str s) = (s \<noteq> [])"
| "truthy (Arr _) = True"
| "truthy (Obj _) = True"

section \<open>Security gate: \<open>backend/websocket/security.js\<close>\<close>

definition MAX_MESSAGE_SIZE :: nat where
  "MAX_MESSAGE_SIZE = 1024 * 10"

definition MAX_CONNECTIONS_PER_IP :: nat where
  "MAX_CONNECTIONS_PER_IP = 10"

definition MAX_CONNECTIONS_PER_USER :: nat where
  "MAX_CONNECTIONS_PER_USER = 3"

text \<open>\<open>validateMessageSize(data)\<close>: \<open>Buffer.byteLength(data) <= MAX_MESSAGE_SIZE\<close>.\<close>

definition validateMessageSize :: "8 word list \<Rightarrow> bool" where
  "validateMessageSize data \<longleftrightarrow> length data \<le> MAX_MESSAGE_SIZE"

text \<open>\<open>validateMessageStructure(message)\<close>, branch by branch.\<close>

definition validateMessageStructure :: "jsval \<Rightarrow> bool" where
  "validateMessageStructure message =
     (if typeof message \<noteq> ''object'' \<or> message = Null then False
      else if \<not> truthy (get_prop message (js ''type'')) \<or> typeof (get_prop message (js ''type'')) \<noteq> ''string''
        then False
      else if get_prop message (js ''type'') = Str (js ''authenticate'')
        then typeof (get_prop message (js ''token'')) = ''string''
      else if get_prop message (js ''type'') = Str (js ''private_message'')
        then (case (get_prop message (js ''toUserId''), get_prop message (js ''message'')) of
                (Num _, Str body) \<Rightarrow> length body \<le> 1000
              | _ \<Rightarrow> False)
      else if get_prop message (js ''type'') = Str (js ''typing_start'')
            \<or> get_prop message (js ''type'') = Str (js ''typing_stop'')
        then typeof (get_prop message (js ''toUserId'')) = ''number''
      else if get_prop message (js ''type'') = Str (js ''ping'')
        then True
      else False)"

subsection \<open>Content validation\<close>

text \<open>
  The dangerous patterns are case-insensitive regular expressions without the \<open>u\<close> flag.
  Every pattern character is ASCII, and in that mode a code unit from 128 up never folds
  to an ASCII one, so a pattern letter matches exactly its two ASCII cases and any other
  pattern character matches only itself.
\<close>

definition fold_ascii :: "16 word \<Rightarrow> 16 word" where
  "fold_ascii c = (if 65 \<le> c \<and> c \<le> 90 then c + 32 else c)"

fun ci_prefix :: "jsstring \<Rightarrow> jsstring \<Rightarrow> bool" where
  "ci_prefix [] s = True"
| "ci_prefix (p # ps) [] = False"
| "ci_prefix (p # ps) (c # cs) = (fold_ascii c = fold_ascii p \<and> ci_prefix ps cs)"

text \<open>\<open>\w\<close> is \<open>[A-Za-z0-9_]\<close>.\<close>

definition word_char :: "16 word \<Rightarrow> bool" where
  "word_char c \<longleftrightarrow> (65 \<le> c \<and> c \<le> 90) \<or> (97 \<le> c \<and> c \<le> 122) \<or> (48 \<le> c \<and> c \<le> 57) \<or> c = 95"

text \<open>
  \<open>/on\w+=/i\<close> anchored at the head of the string: \<open>on\<close>, then the longest run of word
  characters, which must not be empty, then \<open>=\<close>. A shorter run cannot help, since the
  character after it is a word character and not \<open>=\<close>.
\<close>

definition on_handler_here :: "jsstring \<Rightarrow> bool" where
  "on_handler_here s \<longleftrightarrow>
     ci_prefix (js ''on'') s \<and> takeWhile word_char (drop 2 s) \<noteq> [] \<and>
     (case dropWhile word_char (drop 2 s) of [] \<Rightarrow> False | c # _ \<Rightarrow> c = 61)"

text \<open>\<open>pattern.test(content)\<close>: the pattern matches at some position.\<close>

fun somewhere :: "(jsstring \<Rightarrow> bool) \<Rightarrow> jsstring \<Rightarrow> bool" where
  "somewhere here [] = here []"
| "somewhere here (c # cs) = (here (c # cs) \<or> somewhere here cs)"

definition dangerousPatterns :: "(jsstring \<Rightarrow> bool) list" where
  "dangerousPatterns =
     [ci_prefix (js ''<script''),
      ci_prefix (js ''javascript:''),
      on_handler_here,
      ci_prefix (js ''data:text/html''),
      ci_prefix (js ''vbscript:''),
      ci_prefix (js ''expression(''),
      ci_prefix (js ''url(javascript:'')]"

text \<open>The character class \<open>[<>'"`{}[\]();]\<close>.\<close>

definition special_char :: "16 word \<Rightarrow> bool" where
  "special_char c \<longleftrightarrow> c \<in> {60, 62, 39, 34, 96, 123, 125, 91, 93, 40, 41, 59}"

text \<open>
  \<open>specialCharRatio = matches / content.length\<close> is a double. With no characters it is
  \<open>0 / 0 = NaN\<close>, and \<open>NaN > 0.3\<close> is false. Otherwise both operands are integers below
  \<open>2^53\<close>, the quotient is the double nearest to the exact ratio, and the literal \<open>0.3\<close> is
  the double nearest to three tenths; a ratio other than three tenths differs from it by at
  least \<open>1 / (10 * length)\<close>, far more than the rounding error, so the test agrees with the
  exact comparison \<open>10 * matches > 3 * length\<close>.
\<close>

datatype jsnumber = NaN | Ratio nat nat

definition specialCharRatio :: "jsstring \<Rightarrow> jsnumber" where
  "specialCharRatio content =
     (if length content = 0 then NaN
      else Ratio (length (filter special_char content)) (length content))"

fun exceeds_three_tenths :: "jsnumber \<Rightarrow> bool" where
  "exceeds_three_tenths NaN = False"
| "exceeds_three_tenths (Ratio m n) = (10 * m > 3 * n)"

fun validateMessageContent :: "jsval \<Rightarrow> bool" where
  "validateMessageContent (Str content) =
     (if list_ex (\<lambda>pattern. somewhere pattern content) dangerousPatterns then False
      else if exceeds_three_tenths (specialCharRatio content) then False
      else True)"
| "validateMessageContent _ = False"

subsection \<open>Sanitisation\<close>

text \<open>\<open>s.replace(/c/g, r)\<close> for a single-character pattern.\<close>

definition replaceAll :: "16 word \<Rightarrow> jsstring \<Rightarrow> jsstring \<Rightarrow> jsstring" where
  "replaceAll c r s = concat (map (\<lambda>x. if x = c then r else [x]) s)"

text \<open>The white space and line terminators that \<open>String.prototype.trim\<close> strips.\<close>

definition js_space :: "16 word \<Rightarrow> bool" where
  "js_space c \<longleftrightarrow>
     c \<in> {9, 10, 11, 12, 13, 32, 160, 5760, 8232, 8233, 8239, 8287, 12288, 65279}
     \<or> (8192 \<le> c \<and> c \<le> 8202)"

definition trim :: "jsstring \<Rightarrow> jsstring" where
  "trim s = rev (dropWhile js_space (rev (dropWhile js_space s)))"

definition escapeHtml :: "jsstring \<Rightarrow> jsstring" where
  "escapeHtml content =
     replaceAll 47 (js ''&#x2F;'')
       (replaceAll 39 (js ''&#x27;'')
         (replaceAll 34 (js ''&quot;'')
           (replaceAll 62 (js ''&gt;'')
             (replaceAll 60 (js ''&lt;'')
               (replaceAll 38 (js ''&amp;'') content)))))"

fun sanitizeMessageContent :: "jsval \<Rightarrow> jsstring" where
  "sanitizeMessageContent (Str content) = trim (escapeHtml content)"
| "sanitizeMessageContent _ = []"

section \<open>Datastore\<close>

text \<open>
  The tables the handlers touch, after \<open>database/schema-complete.sql\<close>. A parameter
  \<open>None\<close> is SQL \<open>NULL\<close>, which equals nothing. Every statement first reaches the
  server; \<open>faults\<close> lists, for the statements to come, whether the server fails them
  (an exhausted list means no failure). A failed statement raises in the caller.
  The datastore then binds the parameters, and a parameter it cannot bind fails the
  statement before any row is read or written.
\<close>

datatype 'a completion = Returned 'a | Threw

record message_row =
  row_id :: nat
  from_user_id :: "int option"
  to_user_id :: "int option"
  message_text :: jsstring
  created_at :: nat

record database =
  users_status :: "int \<rightharpoonup> string"
  buddies :: "(int \<times> int) list"
  blocks :: "(int \<times> int) list"
  messages :: "message_row list"
  messages_id_seq :: nat
  faults :: "bool list"

definition db_reach :: "database \<Rightarrow> bool \<times> database" where
  "db_reach d = ((case faults d of [] \<Rightarrow> True | f # _ \<Rightarrow> \<not> f), d\<lparr>faults := tl (faults d)\<rparr>)"

text \<open>
  The user id columns are \<open>INTEGER\<close>: a parameter compared with one or stored in one must
  lie between \<open>-2^31\<close> and \<open>2^31 - 1\<close>, or the statement raises. \<open>NULL\<close> binds.
\<close>

definition int4 :: "int option \<Rightarrow> bool" where
  "int4 p \<longleftrightarrow> (case p of None \<Rightarrow> True | Some n \<Rightarrow> - 2147483648 \<le> n \<and> n \<le> 2147483647)"

text \<open>
  A string parameter travels as UTF-8. A surrogate pair is one character; a surrogate that
  is not part of a pair is sent as U+FFFD. The character U+0000 cannot be bound to a
  \<open>TEXT\<close> column: the statement raises.
\<close>

fun utf8_text :: "jsstring \<Rightarrow> jsstring" where
  "utf8_text [] = []"
| "utf8_text [c] =
     [if (55296 \<le> c \<and> c \<le> 56319) \<or> (56320 \<le> c \<and> c \<le> 57343) then 65533 else c]"
| "utf8_text (a # b # cs) =
     (if 55296 \<le> a \<and> a \<le> 56319 \<and> 56320 \<le> b \<and> b \<le> 57343 then a # b # utf8_text cs
      else (if (55296 \<le> a \<and> a \<le> 56319) \<or> (56320 \<le> a \<and> a \<le> 57343) then 65533 else a)
           # utf8_text (b # cs))"

definition text_binds :: "jsstring \<Rightarrow> bool" where
  "text_binds body \<longleftrightarrow> 0 \<notin> set body"

text \<open>
  \<open>SELECT 1 FROM buddies WHERE (user_id = $1 AND buddy_user_id = $2)
  OR (user_id = $2 AND buddy_user_id = $1)\<close>; the result is the number of rows.
\<close>

definition select_buddy_edge ::
  "database \<Rightarrow> int option \<Rightarrow> int option \<Rightarrow> nat completion \<times> database" where
  "select_buddy_edge d p1 p2 =
     (case db_reach d of
        (False, d') \<Rightarrow> (Threw, d')
      | (True, d') \<Rightarrow>
          if \<not> (int4 p1 \<and> int4 p2) then (Threw, d')
          else
           (Returned (length (filter (\<lambda>(u, b). (Some u = p1 \<and> Some b = p2) \<or> (Some u = p2 \<and> Some b = p1))
                                (buddies d'))), d'))"

text \<open>\<open>SELECT 1 FROM blocks WHERE blocker_id = $1 AND blocked_id = $2\<close>.\<close>

definition select_block ::
  "database \<Rightarrow> int option \<Rightarrow> int option \<Rightarrow> nat completion \<times> database" where
  "select_block d p1 p2 =
     (case db_reach d of
        (False, d') \<Rightarrow> (Threw, d')
      | (True, d') \<Rightarrow>
          if \<not> (int4 p1 \<and> int4 p2) then (Threw, d')
          else
           (Returned (length (filter (\<lambda>(blocker, blocked). Some blocker = p1 \<and> Some blocked = p2)
                                (blocks d'))), d'))"

text \<open>
  PostgreSQL's \<open>length\<close> counts characters: a surrogate pair is one character, any other
  code unit is one.
\<close>

fun pg_length :: "jsstring \<Rightarrow> nat" where
  "pg_length [] = 0"
| "pg_length [c] = 1"
| "pg_length (a # b # cs) =
     (if 55296 \<le> a \<and> a \<le> 56319 \<and> 56320 \<le> b \<and> b \<le> 57343 then Suc (pg_length cs)
      else Suc (pg_length (b # cs)))"

text \<open>
  The table constraints of \<open>messages\<close> (lines 45 and 49 of the schema):
  \<open>CHECK (length(message) BETWEEN 1 AND 1000)\<close> and \<open>CHECK (from_user_id != to_user_id)\<close>.
  A check passes when it is true or unknown, and a comparison with \<open>NULL\<close> is unknown.
  Foreign keys are not modelled: the insert follows the buddy check, and a buddy row exists
  only between rows of \<open>users\<close>. Row-level security is not modelled either.
\<close>

definition messages_checks :: "int option \<Rightarrow> int option \<Rightarrow> jsstring \<Rightarrow> bool" where
  "messages_checks p1 p2 body \<longleftrightarrow>
     1 \<le> pg_length body \<and> pg_length body \<le> 1000 \<and>
     (case (p1, p2) of (Some a, Some b) \<Rightarrow> a \<noteq> b | _ \<Rightarrow> True)"

text \<open>
  \<open>INSERT INTO messages (from_user_id, to_user_id, message) VALUES ($1, $2, $3)
  RETURNING id, created_at\<close>. The statement raises when a parameter does not bind. The
  row holds the body as the server received it, and the checks read that text. The
  \<open>SERIAL\<close> id is drawn before the checks run, so a row they reject still consumes one.
\<close>

definition insert_message ::
  "database \<Rightarrow> nat \<Rightarrow> int option \<Rightarrow> int option \<Rightarrow> jsstring \<Rightarrow> (nat \<times> nat) completion \<times> database" where
  "insert_message d now p1 p2 body =
     (case db_reach d of
        (False, d') \<Rightarrow> (Threw, d')
      | (True, d') \<Rightarrow>
          if \<not> (int4 p1 \<and> int4 p2 \<and> text_binds body) then (Threw, d')
          else
           (let new_id = Suc (messages_id_seq d'); d2 = d'\<lparr>messages_id_seq := new_id\<rparr>
            in if messages_checks p1 p2 (utf8_text body)
               then (Returned (new_id, now),
                     d2\<lparr>messages := messages d2 @
                          [\<lparr>row_id = new_id, from_user_id = p1, to_user_id = p2,
                            message_text = utf8_text body, created_at = now\<rparr>]\<rparr>)
               else (Threw, d2)))"

text \<open>\<open>UPDATE users SET status = $1 WHERE id = $2\<close>.\<close>

definition update_status :: "database \<Rightarrow> string \<Rightarrow> int \<Rightarrow> unit completion \<times> database" where
  "update_status d status uid =
     (case db_reach d of
        (False, d') \<Rightarrow> (Threw, d')
      | (True, d') \<Rightarrow>
          (Returned (),
           if uid \<in> dom (users_status d') then d'\<lparr>users_status := (users_status d')(uid \<mapsto> status)\<rparr>
           else d'))"

text \<open>\<open>SELECT buddy_user_id FROM buddies WHERE user_id = $1\<close>.\<close>

definition select_buddies_of :: "database \<Rightarrow> int \<Rightarrow> int list completion \<times> database" where
  "select_buddies_of d uid =
     (case db_reach d of
        (False, d') \<Rightarrow> (Threw, d')
      | (True, d') \<Rightarrow> (Returned (map snd (filter (\<lambda>(u, b). u = uid) (buddies d'))), d'))"

section \<open>Sockets and the server state\<close>

text \<open>
  A socket is the \<open>ws\<close> object with the fields the server sets on it. \<open>readyState\<close> is 1
  while open, 2 once \<open>close\<close> was called, 3 after the close event. \<open>sendThrows\<close> says
  whether \<open>ws.send\<close> raises on this socket; it belongs to the transport, not to the
  server. \<open>ws.close\<close> is called with constant arguments only and does not raise.
\<close>

record socket =
  ip :: jsstring
  isAuthenticated :: bool
  userId :: "int option"
  readyState :: nat
  sendThrows :: bool

text \<open>The objects of the outbound messages, before \<open>JSON.stringify\<close>.\<close>

datatype outmsg =
    ErrorMsg string
  | Pong
  | AuthSuccess int jsstring
  | AuthError string
  | PrivateMessage "int option" jsstring nat nat string
  | BuddyStatusChange int string nat
  | TypingEvent jsval "int option" nat

text \<open>What the server did to the sockets, in order: sockets are named by a handle.\<close>

datatype effect =
    Sent nat outmsg
  | CloseCalled nat nat string

record server =
  db :: database
  sockets :: "nat \<Rightarrow> socket"
  wsConnections :: "int \<rightharpoonup> nat"
  connections :: "int \<rightharpoonup> nat"
  userConnections :: "int \<rightharpoonup> nat"
  messageRates :: "jsstring \<rightharpoonup> nat list"
  clock :: nat
  trace :: "effect list"

definition ws_send :: "server \<Rightarrow> nat \<Rightarrow> outmsg \<Rightarrow> unit completion \<times> server" where
  "ws_send st ws m =
     (if sendThrows (sockets st ws) then (Threw, st)
      else (Returned (), st\<lparr>trace := trace st @ [Sent ws m]\<rparr>))"

definition ws_close :: "server \<Rightarrow> nat \<Rightarrow> nat \<Rightarrow> string \<Rightarrow> server" where
  "ws_close st ws code reason =
     st\<lparr>sockets := (sockets st)(ws := (sockets st ws)\<lparr>readyState :=
            (if readyState (sockets st ws) = 1 then 2 else readyState (sockets st ws))\<rparr>),
        trace := trace st @ [CloseCalled ws code reason]\<rparr>"

subsection \<open>Counters of the security gate\<close>

text \<open>\<open>checkUserConnectionLimit(userId)\<close>; \<open>get(userId) || 0\<close> reads an absent count as 0.\<close>

definition checkUserConnectionLimit :: "server \<Rightarrow> int \<Rightarrow> bool \<times> server" where
  "checkUserConnectionLimit st uid =
     (let currentConnections = (case userConnections st uid of Some n \<Rightarrow> n | None \<Rightarrow> 0)
      in if currentConnections \<ge> MAX_CONNECTIONS_PER_USER then (False, st)
         else (True, st\<lparr>userConnections := (userConnections st)(uid \<mapsto> currentConnections + 1)\<rparr>))"

text \<open>
  \<open>removeUserConnection(userId)\<close>; \<open>get(userId) || 1\<close> reads an absent or zero count as 1.
  No function of the repository calls it.
\<close>

definition removeUserConnection :: "server \<Rightarrow> int \<Rightarrow> server" where
  "removeUserConnection st uid =
     (let currentConnections = (case userConnections st uid of Some n \<Rightarrow> (if n = 0 then 1 else n) | None \<Rightarrow> 1)
      in st\<lparr>userConnections := (userConnections st)(uid \<mapsto> currentConnections - 1)\<rparr>)"

text \<open>
  The rate tables are object literals indexed by the message type, with \<open>||\<close> giving the
  default. The type has passed \<open>validateMessageStructure\<close>, so it is one of five strings.
\<close>

definition getMessageRateWindow :: "jsstring \<Rightarrow> nat" where
  "getMessageRateWindow messageType =
     (if messageType = js ''private_message'' then 60000
      else if messageType = js ''typing_start'' then 10000
      else if messageType = js ''typing_stop'' then 10000
      else if messageType = js ''authenticate'' then 30000
      else 60000)"

definition getMessageRateLimit :: "jsstring \<Rightarrow> nat" where
  "getMessageRateLimit messageType =
     (if messageType = js ''private_message'' then 60
      else if messageType = js ''typing_start'' then 10
      else if messageType = js ''typing_stop'' then 10
      else if messageType = js ''authenticate'' then 5
      else 60)"

text \<open>\<open>checkMessageRateLimit(ip, messageType)\<close>; a refused message is not recorded.\<close>

definition checkMessageRateLimit :: "server \<Rightarrow> jsstring \<Rightarrow> jsstring \<Rightarrow> bool \<times> server" where
  "checkMessageRateLimit st addr messageType =
     (let now = clock st;
          key = addr @ js '':'' @ messageType;
          windowMs = getMessageRateWindow messageType;
          maxMessages = getMessageRateLimit messageType;
          recent = filter (\<lambda>time. int time > int now - int windowMs)
                     (case messageRates st key of Some ts \<Rightarrow> ts | None \<Rightarrow> [])
      in if length recent \<ge> maxMessages then (False, st)
         else (True, st\<lparr>messageRates := (messageRates st)(key \<mapsto> recent @ [now])\<rparr>))"

section \<open>Connection registry: \<open>middleware/auth\<close>\<close>

text \<open>
  The module that the server requires as \<open>../middleware/auth\<close>; its text is the second
  module of \<open>backend/utils/startupValidation.js\<close>. \<open>wsConnections\<close> is its \<open>Map\<close> from
  user id to socket. The \<open>try\<close> around each \<open>close\<close> only logs.
\<close>

text \<open>\<open>registerWebSocketConnection(userId, ws)\<close>.\<close>

definition registerWebSocketConnection :: "server \<Rightarrow> int \<Rightarrow> nat \<Rightarrow> server" where
  "registerWebSocketConnection st uid ws =
     (let st1 = (case wsConnections st uid of
                   Some existing \<Rightarrow> ws_close st existing 1000 ''New connection established''
                 | None \<Rightarrow> st)
      in st1\<lparr>wsConnections := (wsConnections st1)(uid \<mapsto> ws)\<rparr>)"

text \<open>\<open>disconnectUserWebSocket(userId)\<close>.\<close>

definition disconnectUserWebSocket :: "server \<Rightarrow> int \<Rightarrow> server" where
  "disconnectUserWebSocket st uid =
     (case wsConnections st uid of
        Some connection \<Rightarrow>
          (let st1 = ws_close st connection 1000 ''Logged out''
           in st1\<lparr>wsConnections := (wsConnections st1)(uid := None)\<rparr>)
      | None \<Rightarrow> st)"

section \<open>Message handler: \<open>websocket/messageHandler\<close>\<close>

text \<open>The class \<open>MessageHandler\<close>, the second module of \<open>unnamed/part_005\<close>.\<close>

text \<open>
  A query parameter taken from the message. After \<open>validateMessageStructure\<close> the
  recipient id is a number; \<open>undefined\<close> and \<open>null\<close> are bound as \<open>NULL\<close>; any other
  value cannot reach the handlers and is modelled as a statement that fails.
\<close>

fun sql_param :: "jsval \<Rightarrow> int option completion" where
  "sql_param (Num n) = Returned (Some n)"
| "sql_param Undefined = Returned None"
| "sql_param Null = Returned None"
| "sql_param _ = Threw"

text \<open>\<open>getWebSocketConnection(toUserId)\<close> followed by the test \<open>recipientWs && recipientWs.readyState === 1\<close>.\<close>

definition open_connection :: "server \<Rightarrow> (int \<rightharpoonup> nat) \<Rightarrow> int option \<Rightarrow> nat option" where
  "open_connection st registry p =
     (case p of
        None \<Rightarrow> None
      | Some uid \<Rightarrow>
          (case registry uid of
             None \<Rightarrow> None
           | Some c \<Rightarrow> if readyState (sockets st c) = 1 then Some c else None))"

text \<open>The body of the \<open>try\<close> block of \<open>handlePrivateMessage(ws, message)\<close>.\<close>

definition handlePrivateMessage_try :: "server \<Rightarrow> nat \<Rightarrow> jsval \<Rightarrow> unit completion \<times> server" where
  "handlePrivateMessage_try st ws message =
     (let toUserId = get_prop message (js ''toUserId'');
          content = get_prop message (js ''message'');
          sender = userId (sockets st ws)
      in if \<not> validateMessageContent content
         then ws_send st ws (ErrorMsg ''Message contains invalid content'')
         else
          (let sanitizedContent = sanitizeMessageContent content
           in case sql_param toUserId of
                Threw \<Rightarrow> (Threw, st)
              | Returned recipient \<Rightarrow>
             (case select_buddy_edge (db st) sender recipient of
                (Threw, d1) \<Rightarrow> (Threw, st\<lparr>db := d1\<rparr>)
              | (Returned areBuddies, d1) \<Rightarrow>
                  if areBuddies = 0
                  then ws_send (st\<lparr>db := d1\<rparr>) ws (ErrorMsg ''You can only message your buddies'')
                  else
                   (case select_block d1 recipient sender of
                      (Threw, d2) \<Rightarrow> (Threw, st\<lparr>db := d2\<rparr>)
                    | (Returned isBlocked, d2) \<Rightarrow>
                        if isBlocked > 0
                        then ws_send (st\<lparr>db := d2\<rparr>) ws (ErrorMsg ''Cannot send message to this user'')
                        else
                         (case insert_message d2 (clock st) sender recipient sanitizedContent of
                            (Threw, d3) \<Rightarrow> (Threw, st\<lparr>db := d3\<rparr>)
                          | (Returned (messageId, timestamp), d3) \<Rightarrow>
                              (case ws_send (st\<lparr>db := d3\<rparr>) ws
                                      (PrivateMessage sender sanitizedContent messageId timestamp ''outgoing'') of
                                 (Threw, st1) \<Rightarrow> (Threw, st1)
                               | (Returned _, st1) \<Rightarrow>
                                   (case open_connection st1 (wsConnections st1) recipient of
                                      Some recipientWs \<Rightarrow>
                                        ws_send st1 recipientWs
                                          (PrivateMessage sender sanitizedContent messageId timestamp ''incoming'')
                                    | None \<Rightarrow> (Returned (), st1))))))))"

text \<open>\<open>handlePrivateMessage(ws, message)\<close>: the \<open>catch\<close> replies to the sender.\<close>

definition handlePrivateMessage :: "server \<Rightarrow> nat \<Rightarrow> jsval \<Rightarrow> unit completion \<times> server" where
  "handlePrivateMessage st ws message =
     (case handlePrivateMessage_try st ws message of
        (Threw, st1) \<Rightarrow> ws_send st1 ws (ErrorMsg ''Failed to send message'')
      | (Returned u, st1) \<Rightarrow> (Returned u, st1))"

text \<open>\<open>handleTypingIndicator(ws, message)\<close>: its \<open>catch\<close> only logs.\<close>

definition handleTypingIndicator :: "server \<Rightarrow> nat \<Rightarrow> jsval \<Rightarrow> server" where
  "handleTypingIndicator st ws message =
     (let toUserId = get_prop message (js ''toUserId'');
          sender = userId (sockets st ws)
      in case sql_param toUserId of
           Threw \<Rightarrow> st
         | Returned recipient \<Rightarrow>
             (case select_buddy_edge (db st) sender recipient of
                (Threw, d1) \<Rightarrow> st\<lparr>db := d1\<rparr>
              | (Returned areBuddies, d1) \<Rightarrow>
                  if areBuddies = 0 then st\<lparr>db := d1\<rparr>
                  else
                   (case open_connection (st\<lparr>db := d1\<rparr>) (wsConnections st) recipient of
                      Some recipientWs \<Rightarrow>
                        snd (ws_send (st\<lparr>db := d1\<rparr>) recipientWs
                               (TypingEvent (get_prop message (js ''type'')) sender (clock st)))
                    | None \<Rightarrow> st\<lparr>db := d1\<rparr>)))"

section \<open>WebSocket server: \<open>SecureWebSocketServer\<close>\<close>

text \<open>
  The class \<open>SecureWebSocketServer\<close>, the first module of \<open>unnamed/part_005\<close>.
  \<open>connections\<close> is the server's own \<open>Map\<close> from user id to socket, beside the registry.
\<close>

text \<open>
  The loop of \<open>notifyBuddiesStatusChange\<close> over the rows of the buddy query. An exception
  leaves the loop: the only \<open>try\<close> is around the whole function body.
\<close>

fun notify_rows :: "server \<Rightarrow> int \<Rightarrow> string \<Rightarrow> int list \<Rightarrow> unit completion \<times> server" where
  "notify_rows st uid status [] = (Returned (), st)"
| "notify_rows st uid status (buddy # rest) =
     (case open_connection st (connections st) (Some buddy) of
        Some buddyWs \<Rightarrow>
          (case ws_send st buddyWs (BuddyStatusChange uid status (clock st)) of
             (Threw, st1) \<Rightarrow> (Threw, st1)
           | (Returned _, st1) \<Rightarrow> notify_rows st1 uid status rest)
      | None \<Rightarrow> notify_rows st uid status rest)"

text \<open>\<open>notifyBuddiesStatusChange(userId, status)\<close>: the \<open>catch\<close> only logs.\<close>

definition notifyBuddiesStatusChange :: "server \<Rightarrow> int \<Rightarrow> string \<Rightarrow> server" where
  "notifyBuddiesStatusChange st uid status =
     (case select_buddies_of (db st) uid of
        (Threw, d1) \<Rightarrow> st\<lparr>db := d1\<rparr>
      | (Returned rows, d1) \<Rightarrow> snd (notify_rows (st\<lparr>db := d1\<rparr>) uid status rows))"

text \<open>
  The payload of a verified token. \<open>jwt.verify\<close> belongs to a library and is a parameter
  of the handlers: \<open>None\<close> when it raises.
\<close>

record decoded =
  token_id :: int
  token_email :: jsstring
  token_type :: jsstring

type_synonym jwt_verify = "jsstring \<Rightarrow> decoded option"

text \<open>The body of the \<open>try\<close> block of \<open>handleAuthentication(ws, token)\<close>.\<close>

definition handleAuthentication_try ::
  "jwt_verify \<Rightarrow> server \<Rightarrow> nat \<Rightarrow> jsval \<Rightarrow> unit completion \<times> server" where
  "handleAuthentication_try verify st ws token =
     (if \<not> truthy token then (Threw, st)
      else case (case token of Str t \<Rightarrow> verify t | _ \<Rightarrow> None) of
        None \<Rightarrow> (Threw, st)
      | Some decoded \<Rightarrow>
          if token_type decoded \<noteq> js ''access'' then (Threw, st)
          else
           (case checkUserConnectionLimit st (token_id decoded) of
              (False, st1) \<Rightarrow> (Returned (), ws_close st1 ws 1008 ''Too many connections for this user'')
            | (True, st1) \<Rightarrow>
               (let st2 = st1\<lparr>sockets := (sockets st1)
                             (ws := (sockets st1 ws)\<lparr>isAuthenticated := True,
                                                     userId := Some (token_id decoded)\<rparr>)\<rparr>;
                    st3 = registerWebSocketConnection st2 (token_id decoded) ws;
                    st4 = st3\<lparr>connections := (connections st3)(token_id decoded \<mapsto> ws)\<rparr>
                in case update_status (db st4) ''online'' (token_id decoded) of
                     (Threw, d1) \<Rightarrow> (Threw, st4\<lparr>db := d1\<rparr>)
                   | (Returned _, d1) \<Rightarrow>
                       (case ws_send (st4\<lparr>db := d1\<rparr>) ws
                               (AuthSuccess (token_id decoded) (token_email decoded)) of
                          (Threw, st5) \<Rightarrow> (Threw, st5)
                        | (Returned _, st5) \<Rightarrow>
                            (Returned (),
                             notifyBuddiesStatusChange st5 (token_id decoded) ''online'')))))"

text \<open>\<open>handleAuthentication(ws, token)\<close>: the \<open>catch\<close> replies and closes.\<close>

definition handleAuthentication ::
  "jwt_verify \<Rightarrow> server \<Rightarrow> nat \<Rightarrow> jsval \<Rightarrow> unit completion \<times> server" where
  "handleAuthentication verify st ws token =
     (case handleAuthentication_try verify st ws token of
        (Threw, st1) \<Rightarrow>
          (case ws_send st1 ws (AuthError ''Authentication failed'') of
             (Threw, st2) \<Rightarrow> (Threw, st2)
           | (Returned _, st2) \<Rightarrow> (Returned (), ws_close st2 ws 1008 ''Authentication failed''))
      | (Returned u, st1) \<Rightarrow> (Returned u, st1))"

text \<open>\<open>handleMessage(ws, message)\<close>: the \<open>switch\<close> on \<open>message.type\<close>.\<close>

definition handleMessage ::
  "jwt_verify \<Rightarrow> server \<Rightarrow> nat \<Rightarrow> jsval \<Rightarrow> unit completion \<times> server" where
  "handleMessage verify st ws message =
     (let ty = get_prop message (js ''type'')
      in if ty = Str (js ''authenticate'')
           then handleAuthentication verify st ws (get_prop message (js ''token''))
         else if ty = Str (js ''private_message'')
           then (if isAuthenticated (sockets st ws) then handlePrivateMessage st ws message
                 else (Returned (), st))
         else if ty = Str (js ''typing_start'') \<or> ty = Str (js ''typing_stop'')
           then (if isAuthenticated (sockets st ws) then (Returned (), handleTypingIndicator st ws message)
                 else (Returned (), st))
         else if ty = Str (js ''ping'')
           then ws_send st ws Pong
         else ws_send st ws (ErrorMsg ''Unknown message type''))"

text \<open>
  The listener that \<open>setupMessageHandler(ws)\<close> installs for the message event.
  \<open>JSON.parse\<close> is a parameter: \<open>None\<close> when it raises. The rate limiter receives
  \<open>message.type\<close>, a string once the structure check has passed.
\<close>

type_synonym json_parse = "8 word list \<Rightarrow> jsval option"

definition message_type :: "jsval \<Rightarrow> jsstring" where
  "message_type message = (case get_prop message (js ''type'') of Str t \<Rightarrow> t | _ \<Rightarrow> [])"

definition setupMessageHandler_try ::
  "json_parse \<Rightarrow> jwt_verify \<Rightarrow> server \<Rightarrow> nat \<Rightarrow> 8 word list \<Rightarrow> unit completion \<times> server" where
  "setupMessageHandler_try parse verify st ws data =
     (if \<not> validateMessageSize data then (Returned (), ws_close st ws 1009 ''Message too large'')
      else case parse data of
        None \<Rightarrow> (Threw, st)
      | Some message \<Rightarrow>
          if \<not> validateMessageStructure message
          then ws_send st ws (ErrorMsg ''Invalid message format'')
          else
           (case checkMessageRateLimit st (ip (sockets st ws)) (message_type message) of
              (False, st1) \<Rightarrow> ws_send st1 ws (ErrorMsg ''Rate limit exceeded'')
            | (True, st1) \<Rightarrow> handleMessage verify st1 ws message))"

definition setupMessageHandler ::
  "json_parse \<Rightarrow> jwt_verify \<Rightarrow> server \<Rightarrow> nat \<Rightarrow> 8 word list \<Rightarrow> unit completion \<times> server" where
  "setupMessageHandler parse verify st ws data =
     (case setupMessageHandler_try parse verify st ws data of
        (Threw, st1) \<Rightarrow> ws_send st1 ws (ErrorMsg ''Invalid message'')
      | (Returned u, st1) \<Rightarrow> (Returned u, st1))"

text \<open>
  The constructor builds the \<open>WebSocket.Server\<close> with \<open>maxPayload: 1024 * 10\<close>. The \<open>ws\<close>
  library measures every inbound message against that bound before it emits the message
  event. A longer message reaches no listener: the library calls \<open>close\<close> on the socket
  with code 1009 and no reason, and emits the error event of the socket. The server
  registers no listener for that event, so the emitter raises the error. A message within
  the bound is handed to the listener above.
\<close>

definition maxPayload :: nat where
  "maxPayload = 1024 * 10"

definition message_arrives ::
  "json_parse \<Rightarrow> jwt_verify \<Rightarrow> server \<Rightarrow> nat \<Rightarrow> 8 word list \<Rightarrow> unit completion \<times> server" where
  "message_arrives parse verify st ws data =
     (if length data > maxPayload then (Threw, ws_close st ws 1009 [])
      else setupMessageHandler parse verify st ws data)"

text \<open>
  The listener that \<open>setupCloseHandler(ws)\<close> installs for the close event; \<open>if (ws.userId)\<close>
  is false for \<open>null\<close> and for 0.
\<close>

definition setupCloseHandler :: "server \<Rightarrow> nat \<Rightarrow> server" where
  "setupCloseHandler st ws =
     (case userId (sockets st ws) of
        None \<Rightarrow> st
      | Some uid \<Rightarrow>
          if uid = 0 then st
          else
           (let st1 = st\<lparr>connections := (connections st)(uid := None)\<rparr>;
                st2 = disconnectUserWebSocket st1 uid
            in case update_status (db st2) ''offline'' uid of
                 (Threw, d1) \<Rightarrow> st2\<lparr>db := d1\<rparr>
               | (Returned _, d1) \<Rightarrow> notifyBuddiesStatusChange (st2\<lparr>db := d1\<rparr>) uid ''offline''))"

text \<open>The close event of a socket: the socket is closed, then the listener runs.\<close>

definition close_event :: "server \<Rightarrow> nat \<Rightarrow> server" where
  "close_event st ws =
     setupCloseHandler (st\<lparr>sockets := (sockets st)(ws := (sockets st ws)\<lparr>readyState := 3\<rparr>)\<rparr>) ws"

text \<open>
  The connection event of \<open>setupEvents\<close>, once the per-address limit has admitted the
  socket: the fields of a fresh socket.
\<close>

definition fresh_socket :: "jsstring \<Rightarrow> bool \<Rightarrow> socket" where
  "fresh_socket addr raises =
     \<lparr>ip = addr, isAuthenticated = False, userId = None, readyState = 1, sendThrows = raises\<rparr>"

section \<open>Token blacklist: \<open>TokenBlacklist\<close>\<close>

text \<open>The class \<open>TokenBlacklist\<close>, the second module of \<open>backend/routes/buddies.js\<close>.\<close>

text \<open>
  \<open>bcrypt.hash(token, 10)\<close> draws a random 16-byte salt and returns a string that holds
  the cost, the salt and the 23-byte digest. The digest function belongs to the library
  and is a parameter; the salt drawn by a call is an argument of the model.
\<close>

record bcrypt_string =
  cost :: nat
  salt :: "128 word"
  digest :: "184 word"

type_synonym bcrypt_digest = "nat \<Rightarrow> 128 word \<Rightarrow> jsstring \<Rightarrow> 184 word"

definition bcrypt_hash :: "bcrypt_digest \<Rightarrow> 128 word \<Rightarrow> jsstring \<Rightarrow> nat \<Rightarrow> bcrypt_string" where
  "bcrypt_hash bf drawn token rounds = \<lparr>cost = rounds, salt = drawn, digest = bf rounds drawn token\<rparr>"

text \<open>The table \<open>token_blacklist (token_hash PRIMARY KEY, expires_at)\<close> with the clock of the datastore.\<close>

record blacklist_db =
  token_blacklist :: "(bcrypt_string \<times> nat) list"
  db_now :: nat
  db_faults :: "bool list"

definition blacklist_reach :: "blacklist_db \<Rightarrow> bool \<times> blacklist_db" where
  "blacklist_reach d =
     ((case db_faults d of [] \<Rightarrow> True | f # _ \<Rightarrow> \<not> f), d\<lparr>db_faults := tl (db_faults d)\<rparr>)"

text \<open>
  \<open>addToken(token)\<close>. \<open>jwt.decode\<close> is a parameter that gives the \<open>exp\<close> claim in seconds,
  \<open>None\<close> when the token does not decode or has none; \<open>!decoded.exp\<close> also refuses 0.
  The insert is \<open>ON CONFLICT (token_hash) DO NOTHING\<close>.
\<close>

definition addToken ::
  "bcrypt_digest \<Rightarrow> (jsstring \<Rightarrow> nat option) \<Rightarrow> 128 word \<Rightarrow> blacklist_db \<Rightarrow> jsstring \<Rightarrow> bool \<times> blacklist_db" where
  "addToken bf decode drawn d token =
     (case decode token of
        None \<Rightarrow> (False, d)
      | Some exp \<Rightarrow>
          if exp = 0 then (False, d)
          else
           (let tokenHash = bcrypt_hash bf drawn token 10;
                expiresAt = exp * 1000
            in case blacklist_reach d of
                 (False, d1) \<Rightarrow> (False, d1)
               | (True, d1) \<Rightarrow>
                   (True,
                    if tokenHash \<in> fst ` set (token_blacklist d1) then d1
                    else d1\<lparr>token_blacklist := token_blacklist d1 @ [(tokenHash, expiresAt)]\<rparr>)))"

text \<open>
  \<open>isTokenBlacklisted(token)\<close>:
  \<open>SELECT 1 FROM token_blacklist WHERE token_hash = $1 AND expires_at > NOW()\<close>;
  the \<open>catch\<close> answers true.
\<close>

definition isTokenBlacklisted ::
  "bcrypt_digest \<Rightarrow> 128 word \<Rightarrow> blacklist_db \<Rightarrow> jsstring \<Rightarrow> bool \<times> blacklist_db" where
  "isTokenBlacklisted bf drawn d token =
     (let tokenHash = bcrypt_hash bf drawn token 10
      in case blacklist_reach d of
           (False, d1) \<Rightarrow> (True, d1)
         | (True, d1) \<Rightarrow>
             (length (filter (\<lambda>(h, expires_at). h = tokenHash \<and> expires_at > db_now d1)
                        (token_blacklist d1)) > 0, d1))"

section \<open>Notions used to state the properties\<close>

text \<open>The characters that \<open>sanitizeMessageContent\<close> rewrites: \<open>& < > " ' /\<close>.\<close>

definition html_special :: "16 word \<Rightarrow> bool" where
  "html_special c \<longleftrightarrow> c \<in> {38, 60, 62, 34, 39, 47}"

text \<open>The number of characters that are not white space; \<open>trim\<close> does not change it.\<close>

definition non_space_count :: "jsstring \<Rightarrow> nat" where
  "non_space_count s = length (filter (\<lambda>c. \<not> js_space c) s)"

text \<open>A buddy row between two users, in either direction; a block row.\<close>

definition buddy_edge :: "database \<Rightarrow> int \<Rightarrow> int \<Rightarrow> bool" where
  "buddy_edge d a b \<longleftrightarrow> (a, b) \<in> set (buddies d) \<or> (b, a) \<in> set (buddies d)"

definition has_blocked :: "database \<Rightarrow> int \<Rightarrow> int \<Rightarrow> bool" where
  "has_blocked d blocker blocked \<longleftrightarrow> (blocker, blocked) \<in> set (blocks d)"

text \<open>
  The constraint \<open>CHECK (user_id != buddy_user_id)\<close> of the table \<open>buddies\<close> (line 37 of
  the schema): no row joins a user to itself.
\<close>

definition buddies_checks :: "database \<Rightarrow> bool" where
  "buddies_checks d \<longleftrightarrow> list_all (\<lambda>(u, b). u \<noteq> b) (buddies d)"

text \<open>
  A body that the table \<open>messages\<close> takes: it binds, and it has between 1 and 1000
  characters.
\<close>

definition storable :: "jsstring \<Rightarrow> bool" where
  "storable body \<longleftrightarrow> text_binds body \<and> 1 \<le> pg_length body \<and> pg_length body \<le> 1000"

text \<open>The datastore serves the next \<open>n\<close> statements.\<close>

definition serves :: "nat \<Rightarrow> database \<Rightarrow> bool" where
  "serves n d \<longleftrightarrow> True \<notin> set (take n (faults d))"



text \<open>A private message from the wire, after \<open>JSON.parse\<close>.\<close>

definition private_message :: "int \<Rightarrow> jsstring \<Rightarrow> jsval" where
  "private_message recipient body =
     Obj [(js ''type'', Str (js ''private_message'')),
          (js ''toUserId'', Num recipient),
          (js ''message'', Str body)]"

text \<open>
  The connections that \<open>notifyBuddiesStatusChange\<close> looks at, in the order of the buddy
  rows: for each row, the connection of the buddy if it is registered and open.
\<close>

definition fanout_targets :: "server \<Rightarrow> int \<Rightarrow> nat list" where
  "fanout_targets st uid =
     (if fst (db_reach (db st))
      then List.map_filter (\<lambda>buddy. open_connection st (connections st) (Some buddy))
             (map snd (filter (\<lambda>(u, b). u = uid) (buddies (db st))))
      else [])"

subsection \<open>A small installation\<close>

text \<open>
  Three users. 1 is the buddy of 2 and of 3; 2 and 3 are not buddies, and 2 has blocked 3.
  Each user is connected on the socket that carries the same number.
\<close>

definition example_db :: database where
  "example_db =
     \<lparr>users_status = [1 \<mapsto> ''online'', 2 \<mapsto> ''online'', 3 \<mapsto> ''online''],
      buddies = [(1, 2), (2, 1), (1, 3), (3, 1)],
      blocks = [(2, 3)],
      messages = [],
      messages_id_seq = 0,
      faults = []\<rparr>"

definition example_socket :: "int \<Rightarrow> socket" where
  "example_socket uid =
     \<lparr>ip = js ''10.0.0.1'', isAuthenticated = True, userId = Some uid, readyState = 1,
      sendThrows = False\<rparr>"

definition example_server :: server where
  "example_server =
     \<lparr>db = example_db,
      sockets = (\<lambda>_. fresh_socket (js ''10.0.0.9'') False)
                  (1 := example_socket 1, 2 := example_socket 2, 3 := example_socket 3),
      wsConnections = [1 \<mapsto> 1, 2 \<mapsto> 2, 3 \<mapsto> 3],
      connections = [1 \<mapsto> 1, 2 \<mapsto> 2, 3 \<mapsto> 3],
      userConnections = [1 \<mapsto> 1, 2 \<mapsto> 1, 3 \<mapsto> 1],
      messageRates = Map.empty,
      clock = 5000,
      trace = []\<rparr>"

text \<open>The same users with nobody connected, and the tokens of user 1.\<close>

definition idle_server :: server where
  "idle_server =
     \<lparr>db = example_db,
      sockets = (\<lambda>_. fresh_socket (js ''10.0.0.9'') False),
      wsConnections = Map.empty,
      connections = Map.empty,
      userConnections = Map.empty,
      messageRates = Map.empty,
      clock = 5000,
      trace = []\<rparr>"

definition example_verify :: jwt_verify where
  "example_verify t =
     (if t = js ''token-of-1''
      then Some \<lparr>token_id = 1, token_email = js ''one@example.org'', token_type = js ''access''\<rparr>
      else None)"

subsection \<open>Rows and replies of the router\<close>

text \<open>The row that a successful \<open>handlePrivateMessage\<close> appends, and the confirmation it sends to the sender.\<close>

definition stored_row :: "server \<Rightarrow> int \<Rightarrow> int \<Rightarrow> jsstring \<Rightarrow> message_row" where
  "stored_row st a b body =
     \<lparr>row_id = Suc (messages_id_seq (db st)), from_user_id = Some a, to_user_id = Some b,
      message_text = utf8_text (sanitizeMessageContent (Str body)), created_at = clock st\<rparr>"

definition confirmation :: "server \<Rightarrow> int \<Rightarrow> jsstring \<Rightarrow> outmsg" where
  "confirmation st a body =
     PrivateMessage (Some a) (sanitizeMessageContent (Str body))
       (Suc (messages_id_seq (db st))) (clock st) ''outgoing''"


subsection \<open>Inputs of the listener\<close>


text \<open>An empty blacklist on a datastore that is up.\<close>

definition empty_blacklist :: blacklist_db where
  "empty_blacklist = \<lparr>token_blacklist = [], db_now = 0, db_faults = []\<rparr>"

text \<open>The installation with a fourth socket that has connected and not authenticated.\<close>

definition unauthenticated_server :: server where
  "unauthenticated_server =
     example_server\<lparr>sockets := (sockets example_server)(4 := fresh_socket (js ''10.0.0.4'') False)\<rparr>"

text \<open>A stand-in for \<open>JSON.parse\<close> that reads one payload as a private message.\<close>

definition example_parse :: json_parse where
  "example_parse data = (if data = [1] then Some (private_message 2 (js ''hello'')) else None)"

subsection \<open>Scenarios of the server\<close>

text \<open>The status-change event as sent to one connection.\<close>

definition status_event :: "server \<Rightarrow> int \<Rightarrow> string \<Rightarrow> nat \<Rightarrow> effect" where
  "status_event st uid status c = Sent c (BuddyStatusChange uid status (clock st))"

text \<open>The installation in which the socket of user 2 raises on \<open>send\<close>.\<close>

definition raising_buddy :: server where
  "raising_buddy =
     example_server\<lparr>sockets := (sockets example_server)(2 := (example_socket 2)\<lparr>sendThrows := True\<rparr>)\<rparr>"

text \<open>One session of user 1 on a socket: the socket authenticates with the token of user 1, then it closes.\<close>

definition session :: "server \<Rightarrow> nat \<Rightarrow> server" where
  "session st c = close_event (snd (handleAuthentication example_verify st c (Str (js ''token-of-1'')))) c"

text \<open>Three sessions of user 1, one after the other, on an installation where nobody was connected.\<close>

definition three_sessions :: server where
  "three_sessions = session (session (session idle_server 10) 11) 12"

section \<open>Sanitisation is not idempotent\<close>

lemma replaceAll_absent: "c \<notin> set s \<Longrightarrow> replaceAll c r s = s"
  by (induction s) (auto simp: replaceAll_def)

lemma replaceAll_keeps: "x \<in> set s \<Longrightarrow> x \<noteq> c \<Longrightarrow> x \<in> set (replaceAll c r s)"
  by (induction s) (auto simp: replaceAll_def)

lemma replaceAll_brings: "c \<in> set s \<Longrightarrow> x \<in> set r \<Longrightarrow> x \<in> set (replaceAll c r s)"
  by (induction s) (auto simp: replaceAll_def)

lemma filter_dropWhile_neg: "filter (\<lambda>x. \<not> P x) (dropWhile P xs) = filter (\<lambda>x. \<not> P x) xs"
  by (induction xs) auto

lemma filter_trim: "filter (\<lambda>c. \<not> js_space c) (trim s) = filter (\<lambda>c. \<not> js_space c) s"
  by (simp add: trim_def rev_filter [symmetric] filter_dropWhile_neg)

lemma last_dropWhile_eq: "dropWhile P xs \<noteq> [] \<Longrightarrow> last (dropWhile P xs) = last xs"
  by (induction xs) (auto split: if_splits)

lemma trim_trim: "trim (trim s) = trim s"
proof -
  define t where "t = dropWhile js_space s"
  define u where "u = dropWhile js_space (rev t)"
  have head_t: "t \<noteq> [] \<Longrightarrow> \<not> js_space (hd t)"
    unfolding t_def by (rule hd_dropWhile)
  have "dropWhile js_space (rev u) = rev u"
  proof (cases "u = []")
    case True
    then show ?thesis by simp
  next
    case False
    then have "last u = last (rev t)"
      unfolding u_def by (rule last_dropWhile_eq)
    moreover have "t \<noteq> []" using False u_def by auto
    ultimately have "\<not> js_space (hd (rev u))"
      using head_t False by (simp add: hd_rev last_rev)
    then show ?thesis
      using False by (cases "rev u") auto
  qed
  moreover have "dropWhile js_space u = u"
    unfolding u_def by (rule dropWhile_idem)
  ultimately show ?thesis
    by (simp add: trim_def t_def [symmetric] u_def [symmetric])
qed

lemma non_space_replaceAll_mono:
  "1 \<le> non_space_count r \<Longrightarrow> non_space_count s \<le> non_space_count (replaceAll c r s)"
  by (induction s) (auto simp: replaceAll_def non_space_count_def)

lemma non_space_replaceAll_grows:
  "2 \<le> non_space_count r \<Longrightarrow> c \<in> set s \<Longrightarrow> non_space_count s < non_space_count (replaceAll c r s)"
proof (induction s)
  case Nil
  then show ?case by simp
next
  case (Cons a s)
  have mono: "non_space_count s \<le> non_space_count (replaceAll c r s)"
    using Cons.prems(1) by (intro non_space_replaceAll_mono) simp
  show ?case
  proof (cases "a = c")
    case True
    then show ?thesis using mono Cons.prems(1)
      by (auto simp: replaceAll_def non_space_count_def)
  next
    case False
    then have "c \<in> set s" using Cons.prems(2) by simp
    then have "non_space_count s < non_space_count (replaceAll c r s)"
      using Cons.IH Cons.prems(1) by simp
    then show ?thesis using False
      by (auto simp: replaceAll_def non_space_count_def)
  qed
qed


lemma non_space_literals:
  "non_space_count (js ''&amp;'') = 5" "non_space_count (js ''&lt;'') = 4"
  "non_space_count (js ''&gt;'') = 4" "non_space_count (js ''&quot;'') = 6"
  "non_space_count (js ''&#x27;'') = 6" "non_space_count (js ''&#x2F;'') = 6"
  by (simp_all add: non_space_count_def js_def js_space_def)

lemma amp_in_literals:
  "38 \<in> set (js ''&amp;'')" "38 \<in> set (js ''&lt;'')" "38 \<in> set (js ''&gt;'')"
  "38 \<in> set (js ''&quot;'')" "38 \<in> set (js ''&#x27;'')" "38 \<in> set (js ''&#x2F;'')"
  by (simp_all add: js_def)

lemma escapeHtml_plain: "\<not> list_ex html_special s \<Longrightarrow> escapeHtml s = s"
proof -
  assume "\<not> list_ex html_special s"
  then have "38 \<notin> set s" "60 \<notin> set s" "62 \<notin> set s" "34 \<notin> set s" "39 \<notin> set s" "47 \<notin> set s"
    by (auto simp: list_ex_iff html_special_def)
  then show ?thesis by (simp add: escapeHtml_def replaceAll_absent)
qed

lemma escapeHtml_amp: "list_ex html_special s \<Longrightarrow> 38 \<in> set (escapeHtml s)"
proof -
  assume "list_ex html_special s"
  then obtain c where c: "c \<in> set s" "c = 38 \<or> c = 60 \<or> c = 62 \<or> c = 34 \<or> c = 39 \<or> c = 47"
    by (auto simp: list_ex_iff html_special_def)
  let ?s1 = "replaceAll 38 (js ''&amp;'') s"
  let ?s2 = "replaceAll 60 (js ''&lt;'') ?s1"
  let ?s3 = "replaceAll 62 (js ''&gt;'') ?s2"
  let ?s4 = "replaceAll 34 (js ''&quot;'') ?s3"
  let ?s5 = "replaceAll 39 (js ''&#x27;'') ?s4"
  let ?s6 = "replaceAll 47 (js ''&#x2F;'') ?s5"
  have k1: "\<And>x. x \<in> set s \<Longrightarrow> x \<noteq> 38 \<Longrightarrow> x \<in> set ?s1" by (rule replaceAll_keeps)
  have k2: "\<And>x. x \<in> set ?s1 \<Longrightarrow> x \<noteq> 60 \<Longrightarrow> x \<in> set ?s2" by (rule replaceAll_keeps)
  have k3: "\<And>x. x \<in> set ?s2 \<Longrightarrow> x \<noteq> 62 \<Longrightarrow> x \<in> set ?s3" by (rule replaceAll_keeps)
  have k4: "\<And>x. x \<in> set ?s3 \<Longrightarrow> x \<noteq> 34 \<Longrightarrow> x \<in> set ?s4" by (rule replaceAll_keeps)
  have k5: "\<And>x. x \<in> set ?s4 \<Longrightarrow> x \<noteq> 39 \<Longrightarrow> x \<in> set ?s5" by (rule replaceAll_keeps)
  have k6: "\<And>x. x \<in> set ?s5 \<Longrightarrow> x \<noteq> 47 \<Longrightarrow> x \<in> set ?s6" by (rule replaceAll_keeps)
  have b1: "38 \<in> set s \<Longrightarrow> 38 \<in> set ?s1" by (rule replaceAll_brings) (simp_all add: amp_in_literals)
  have b2: "60 \<in> set ?s1 \<Longrightarrow> 38 \<in> set ?s2" by (rule replaceAll_brings) (simp_all add: amp_in_literals)
  have b3: "62 \<in> set ?s2 \<Longrightarrow> 38 \<in> set ?s3" by (rule replaceAll_brings) (simp_all add: amp_in_literals)
  have b4: "34 \<in> set ?s3 \<Longrightarrow> 38 \<in> set ?s4" by (rule replaceAll_brings) (simp_all add: amp_in_literals)
  have b5: "39 \<in> set ?s4 \<Longrightarrow> 38 \<in> set ?s5" by (rule replaceAll_brings) (simp_all add: amp_in_literals)
  have b6: "47 \<in> set ?s5 \<Longrightarrow> 38 \<in> set ?s6" by (rule replaceAll_brings) (simp_all add: amp_in_literals)
  have "38 \<in> set ?s6"
    using c(2)
  proof (elim disjE)
    assume "c = 38" then show ?thesis using c(1) b1 k2 k3 k4 k5 k6 by simp
  next
    assume "c = 60" then show ?thesis using c(1) k1 b2 k3 k4 k5 k6 by simp
  next
    assume "c = 62" then show ?thesis using c(1) k1 k2 b3 k4 k5 k6 by simp
  next
    assume "c = 34" then show ?thesis using c(1) k1 k2 k3 b4 k5 k6 by simp
  next
    assume "c = 39" then show ?thesis using c(1) k1 k2 k3 k4 b5 k6 by simp
  next
    assume "c = 47" then show ?thesis using c(1) k1 k2 k3 k4 k5 b6 by simp
  qed
  then show ?thesis by (simp add: escapeHtml_def)
qed

lemma escapeHtml_grows: "38 \<in> set t \<Longrightarrow> non_space_count t < non_space_count (escapeHtml t)"
proof -
  assume amp: "38 \<in> set t"
  have "non_space_count t < non_space_count (replaceAll 38 (js ''&amp;'') t)"
    using amp by (intro non_space_replaceAll_grows) (simp_all add: non_space_literals)
  also have "\<dots> \<le> non_space_count (replaceAll 60 (js ''&lt;'') (replaceAll 38 (js ''&amp;'') t))"
    by (intro non_space_replaceAll_mono) (simp add: non_space_literals)
  also have "\<dots> \<le> non_space_count (replaceAll 62 (js ''&gt;'') (replaceAll 60 (js ''&lt;'') (replaceAll 38 (js ''&amp;'') t)))"
    by (intro non_space_replaceAll_mono) (simp add: non_space_literals)
  also have "\<dots> \<le> non_space_count (replaceAll 34 (js ''&quot;'') (replaceAll 62 (js ''&gt;'') (replaceAll 60 (js ''&lt;'') (replaceAll 38 (js ''&amp;'') t))))"
    by (intro non_space_replaceAll_mono) (simp add: non_space_literals)
  also have "\<dots> \<le> non_space_count (replaceAll 39 (js ''&#x27;'') (replaceAll 34 (js ''&quot;'') (replaceAll 62 (js ''&gt;'') (replaceAll 60 (js ''&lt;'') (replaceAll 38 (js ''&amp;'') t)))))"
    by (intro non_space_replaceAll_mono) (simp add: non_space_literals)
  also have "\<dots> \<le> non_space_count (escapeHtml t)"
    unfolding escapeHtml_def by (intro non_space_replaceAll_mono) (simp add: non_space_literals)
  finally show ?thesis .
qed

lemma non_space_trim: "non_space_count (trim s) = non_space_count s"
  by (simp add: non_space_count_def filter_trim)

lemma amp_survives_trim: "38 \<in> set s \<Longrightarrow> 38 \<in> set (trim s)"
proof -
  assume "38 \<in> set s"
  then have "38 \<in> set (filter (\<lambda>c. \<not> js_space c) s)" by (simp add: js_space_def)
  then have "38 \<in> set (filter (\<lambda>c. \<not> js_space c) (trim s))" by (simp add: filter_trim)
  then show ?thesis by simp
qed

lemma set_trim: "set (trim s) \<subseteq> set s"
  by (auto simp: trim_def dest!: set_dropWhileD)

text \<open>
  Claim C4, as amended. Sanitising a sanitised string gives the same string exactly when
  the original string has none of the characters \<open>& < > " ' /\<close>. Any of them leaves an
  ampersand in the output, and the next pass escapes that ampersand again.
\<close>

theorem sanitize_stable_iff:
  "sanitizeMessageContent (Str (sanitizeMessageContent (Str s))) = sanitizeMessageContent (Str s)
   \<longleftrightarrow> \<not> list_ex html_special s"
proof (cases "list_ex html_special s")
  case True
  let ?t = "sanitizeMessageContent (Str s)"
  have "38 \<in> set ?t" using True by (simp add: escapeHtml_amp amp_survives_trim)
  then have "non_space_count ?t < non_space_count (escapeHtml ?t)" by (rule escapeHtml_grows)
  then have "non_space_count ?t < non_space_count (sanitizeMessageContent (Str ?t))"
    by (simp add: non_space_trim)
  then have "sanitizeMessageContent (Str ?t) \<noteq> ?t" by auto
  then show ?thesis using True by simp
next
  case False
  then have plain: "sanitizeMessageContent (Str s) = trim s" by (simp add: escapeHtml_plain)
  have "\<not> list_ex html_special (trim s)"
    using False set_trim [of s] by (auto simp: list_ex_iff)
  then have "sanitizeMessageContent (Str (trim s)) = trim (trim s)" by (simp add: escapeHtml_plain)
  then show ?thesis using False plain by (simp add: trim_trim)
qed

theorem sanitize_stable_iff_witness:
  "\<not> list_ex html_special (js '' hi there '') \<and>
   sanitizeMessageContent (Str (sanitizeMessageContent (Str (js '' hi there '')))) = js ''hi there'' \<and>
   list_ex html_special (js ''a/b'') \<and>
   sanitizeMessageContent (Str (sanitizeMessageContent (Str (js ''a/b'')))) \<noteq> sanitizeMessageContent (Str (js ''a/b''))"
  using sanitize_stable_iff [of "js '' hi there ''"] sanitize_stable_iff [of "js ''a/b''"]
  by (simp add: js_def html_special_def trim_def escapeHtml_def replaceAll_def js_space_def)

text \<open>
  Claim C4 as stated fails: \<open>&\<close> becomes \<open>&amp;\<close>, and \<open>&amp;\<close> becomes \<open>&amp;amp;\<close>.
\<close>

theorem sanitize_not_idempotent:
  "sanitizeMessageContent (Str (sanitizeMessageContent (Str (js ''&'')))) \<noteq> sanitizeMessageContent (Str (js ''&''))"
  by (simp add: js_def trim_def escapeHtml_def replaceAll_def js_space_def)

section \<open>The message router\<close>

lemma private_message_props:
  "get_prop (private_message b body) (js ''type'') = Str (js ''private_message'')"
  "get_prop (private_message b body) (js ''toUserId'') = Num b"
  "get_prop (private_message b body) (js ''message'') = Str body"
  by (simp_all add: private_message_def js_def)

lemma serves_step:
  "serves (Suc n) d \<Longrightarrow> fst (db_reach d)"
  "serves (Suc n) d \<Longrightarrow> serves n (d\<lparr>faults := tl (faults d)\<rparr>)"
  by (cases "faults d"; simp add: serves_def db_reach_def)+

lemma pg_length_first:
  "\<not> (55296 \<le> a \<and> a \<le> 56319) \<Longrightarrow> pg_length (a # s) = Suc (pg_length s)"
  by (cases s) auto

lemma pg_length_utf8_text: "pg_length (utf8_text s) = pg_length s"
proof (induction s rule: utf8_text.induct)
  case 1
  then show ?case by simp
next
  case (2 c)
  then show ?case by simp
next
  case (3 a b cs)
  show ?case
  proof (cases "55296 \<le> a \<and> a \<le> 56319 \<and> 56320 \<le> b \<and> b \<le> 57343")
    case True
    then show ?thesis using 3 by simp
  next
    case False
    let ?a = "if (55296 \<le> a \<and> a \<le> 56319) \<or> (56320 \<le> a \<and> a \<le> 57343) then 65533 else a"
    have "\<not> (55296 \<le> ?a \<and> ?a \<le> 56319)" by simp
    then have "pg_length (?a # utf8_text (b # cs)) = Suc (pg_length (utf8_text (b # cs)))"
      by (rule pg_length_first)
    moreover have "utf8_text (a # b # cs) = ?a # utf8_text (b # cs)"
      by (simp only: utf8_text.simps False if_False)
    moreover have "pg_length (a # b # cs) = Suc (pg_length (b # cs))"
      by (simp only: pg_length.simps False if_False)
    moreover have "pg_length (utf8_text (b # cs)) = pg_length (b # cs)"
      using False "3.IH"(2) by blast
    ultimately show ?thesis by (simp only:)
  qed
qed

lemma messages_checks_utf8_text:
  "messages_checks p1 p2 (utf8_text body) = messages_checks p1 p2 body"
  by (simp add: messages_checks_def pg_length_utf8_text)

lemma select_buddy_edge_served:
  assumes "serves (Suc n) d" and "int4 (Some a)" and "int4 (Some b)"
  obtains k where
    "select_buddy_edge d (Some a) (Some b) = (Returned k, d\<lparr>faults := tl (faults d)\<rparr>)"
    "k = 0 \<longleftrightarrow> \<not> buddy_edge d a b"
proof -
  let ?k = "length (filter (\<lambda>(u, v). (Some u = Some a \<and> Some v = Some b) \<or> (Some u = Some b \<and> Some v = Some a)) (buddies d))"
  have "select_buddy_edge d (Some a) (Some b) = (Returned ?k, d\<lparr>faults := tl (faults d)\<rparr>)"
    using serves_step(1) [OF assms(1)] assms(2,3) by (simp add: select_buddy_edge_def db_reach_def)
  moreover have "?k = 0 \<longleftrightarrow> \<not> buddy_edge d a b"
    by (auto simp: buddy_edge_def filter_empty_conv)
  ultimately show ?thesis using that by blast
qed

lemma select_buddy_edge_unbound:
  assumes "\<not> (int4 p1 \<and> int4 p2)"
  obtains d' where "select_buddy_edge d p1 p2 = (Threw, d')" "messages d' = messages d"
  using assms by (auto simp: select_buddy_edge_def db_reach_def split: bool.splits list.splits)

lemma select_block_served:
  assumes "serves (Suc n) d" and "int4 (Some a)" and "int4 (Some b)"
  obtains k where
    "select_block d (Some b) (Some a) = (Returned k, d\<lparr>faults := tl (faults d)\<rparr>)"
    "0 < k \<longleftrightarrow> has_blocked d b a"
proof -
  let ?k = "length (filter (\<lambda>(u, v). Some u = Some b \<and> Some v = Some a) (blocks d))"
  have "select_block d (Some b) (Some a) = (Returned ?k, d\<lparr>faults := tl (faults d)\<rparr>)"
    using serves_step(1) [OF assms(1)] assms(2,3) by (simp add: select_block_def db_reach_def)
  moreover have "0 < ?k \<longleftrightarrow> has_blocked d b a"
    by (auto simp: has_blocked_def filter_empty_conv)
  ultimately show ?thesis using that by blast
qed

lemma insert_message_served:
  assumes "serves (Suc n) d" and "int4 p1" and "int4 p2" and "text_binds body"
    and "messages_checks p1 p2 body"
  shows "insert_message d now p1 p2 body =
           (Returned (Suc (messages_id_seq d), now),
            d\<lparr>faults := tl (faults d), messages_id_seq := Suc (messages_id_seq d),
              messages := messages d @ [\<lparr>row_id = Suc (messages_id_seq d), from_user_id = p1,
                 to_user_id = p2, message_text = utf8_text body, created_at = now\<rparr>]\<rparr>)"
  using serves_step(1) [OF assms(1)] assms(2-5)
  by (simp add: insert_message_def db_reach_def Let_def messages_checks_utf8_text)

lemma insert_message_keeps_rows:
  "fst (insert_message d now p1 p2 body) = Threw \<Longrightarrow>
   messages (snd (insert_message d now p1 p2 body)) = messages d"
  by (auto simp: insert_message_def db_reach_def Let_def split: if_splits bool.splits list.splits)

lemma handleMessage_private:
  "isAuthenticated (sockets st ws) \<Longrightarrow>
   handleMessage verify st ws (private_message b body) = handlePrivateMessage st ws (private_message b body)"
  by (simp add: handleMessage_def private_message_props Let_def) (simp add: js_def)

lemma serves_Suc_iff:
  "serves (Suc n) d \<longleftrightarrow> fst (db_reach d) \<and> serves n (d\<lparr>faults := tl (faults d)\<rparr>)"
  by (cases "faults d") (auto simp: serves_def db_reach_def)

lemma serves_0: "serves 0 d"
  by (simp add: serves_def)

lemma insert_message_refused:
  assumes "\<not> serves (Suc 0) d \<or> \<not> messages_checks p1 p2 body \<or> \<not> text_binds body"
  obtains d' where "insert_message d now p1 p2 body = (Threw, d')" "messages d' = messages d"
proof -
  have "fst (insert_message d now p1 p2 body) = Threw"
    using assms
    by (auto simp: insert_message_def serves_Suc_iff serves_0 db_reach_def Let_def
          messages_checks_utf8_text split: bool.splits list.splits)
  then show ?thesis
    using that [of "snd (insert_message d now p1 p2 body)"] insert_message_keeps_rows [of d now p1 p2 body]
    by (metis prod.collapse)
qed

lemma insert_failure_core:
  assumes sender: "userId (sockets st ws) = Some a"
    and valid: "validateMessageContent (Str body)"
    and store: "serves 2 (db st)"
    and friends: "buddy_edge (db st) a b" "\<not> has_blocked (db st) b a"
    and refused: "\<not> serves 3 (db st)
        \<or> \<not> messages_checks (Some a) (Some b) (sanitizeMessageContent (Str body))
        \<or> \<not> text_binds (sanitizeMessageContent (Str body))"
  obtains d' where
    "handlePrivateMessage_try st ws (private_message b body) = (Threw, st\<lparr>db := d'\<rparr>)"
    "messages d' = messages (db st)"
proof (cases "int4 (Some a) \<and> int4 (Some b)")
  case False
  then obtain d' where "select_buddy_edge (db st) (Some a) (Some b) = (Threw, d')"
      "messages d' = messages (db st)"
    using select_buddy_edge_unbound [of "Some a" "Some b" "db st"] by blast
  then have "handlePrivateMessage_try st ws (private_message b body) = (Threw, st\<lparr>db := d'\<rparr>)"
      "messages d' = messages (db st)"
    using valid sender
    by (simp_all add: handlePrivateMessage_try_def private_message_props Let_def
          del: validateMessageContent.simps sanitizeMessageContent.simps)
  then show ?thesis using that by blast
next
  case True
  let ?d1 = "(db st)\<lparr>faults := tl (faults (db st))\<rparr>"
  let ?d2 = "?d1\<lparr>faults := tl (faults ?d1)\<rparr>"
  have s1: "serves 2 (db st)" "serves 1 ?d1"
    using store serves_step(2) [of 1 "db st"] by (simp_all add: numeral_2_eq_2)
  have s3: "serves 3 (db st) \<longleftrightarrow> serves (Suc 0) ?d2"
    using s1 by (simp add: numeral_3_eq_3 numeral_2_eq_2 serves_Suc_iff)
  obtain k where k: "select_buddy_edge (db st) (Some a) (Some b) = (Returned k, ?d1)"
      "k = 0 \<longleftrightarrow> \<not> buddy_edge (db st) a b"
    using select_buddy_edge_served [of 1 "db st" a b] s1(1) True by (auto simp: numeral_2_eq_2)
  obtain j where j: "select_block ?d1 (Some b) (Some a) = (Returned j, ?d2)"
      "0 < j \<longleftrightarrow> has_blocked ?d1 b a"
    using select_block_served [of 0 ?d1 a b] s1(2) True by auto
  have blocked: "has_blocked ?d1 b a = has_blocked (db st) b a"
    by (simp add: has_blocked_def)
  obtain d' where d': "insert_message ?d2 (clock st) (Some a) (Some b) (sanitizeMessageContent (Str body)) = (Threw, d')"
      "messages d' = messages ?d2"
    using insert_message_refused [of ?d2 "Some a" "Some b" "sanitizeMessageContent (Str body)" "clock st"]
      refused s3 by blast
  have "handlePrivateMessage_try st ws (private_message b body) = (Threw, st\<lparr>db := d'\<rparr>)"
    using k j blocked d'(1) valid sender friends
    by (auto simp: handlePrivateMessage_try_def private_message_props Let_def
          simp del: validateMessageContent.simps sanitizeMessageContent.simps)
  then show ?thesis using that d'(2) by simp
qed

lemma no_self_buddy: "buddies_checks d \<Longrightarrow> buddy_edge d a b \<Longrightarrow> a \<noteq> b"
  by (auto simp: buddies_checks_def buddy_edge_def list_all_iff)

text \<open>
  Claim C1, as amended. An authenticated sender \<open>a\<close> sends valid content to a user \<open>b\<close>;
  both ids are \<open>INTEGER\<close> values, the datastore serves the three statements and the
  sender's socket accepts the reply. Then the row is stored and the confirmation is sent to
  the sender exactly when a buddy row exists in either direction, \<open>b\<close> has not blocked
  \<open>a\<close>, and the sanitised body is one the table takes: no character U+0000 and between 1
  and 1000 characters. The row holds the body as sent in UTF-8. Without a buddy row the only
  reply is the not-buddies error, whatever the block state, and no row is stored. With a
  buddy row and a block the only reply is the blocked error, and no row is stored. With a
  buddy row, no block and a body the table does not take, the only reply is the failure
  error, and no row is stored.
\<close>

theorem private_message_outcome:
  assumes auth: "isAuthenticated (sockets st ws)" and sender: "userId (sockets st ws) = Some a"
    and valid: "validateMessageContent (Str body)"
    and ids: "int4 (Some a)" "int4 (Some b)"
    and table: "buddies_checks (db st)"
    and store: "serves 3 (db st)"
    and reply: "\<not> sendThrows (sockets st ws)"
  shows
    "((messages (db (snd (handleMessage verify st ws (private_message b body))))
         = messages (db st) @ [stored_row st a b body]
       \<and> (\<exists>rest. trace (snd (handleMessage verify st ws (private_message b body)))
                 = trace st @ Sent ws (confirmation st a body) # rest))
      \<longleftrightarrow> buddy_edge (db st) a b \<and> \<not> has_blocked (db st) b a
          \<and> storable (sanitizeMessageContent (Str body)))
     \<and> (\<not> buddy_edge (db st) a b \<longrightarrow>
          trace (snd (handleMessage verify st ws (private_message b body)))
            = trace st @ [Sent ws (ErrorMsg ''You can only message your buddies'')]
          \<and> messages (db (snd (handleMessage verify st ws (private_message b body)))) = messages (db st))
     \<and> (buddy_edge (db st) a b \<and> has_blocked (db st) b a \<longrightarrow>
          trace (snd (handleMessage verify st ws (private_message b body)))
            = trace st @ [Sent ws (ErrorMsg ''Cannot send message to this user'')]
          \<and> messages (db (snd (handleMessage verify st ws (private_message b body)))) = messages (db st))
     \<and> (buddy_edge (db st) a b \<and> \<not> has_blocked (db st) b a
          \<and> \<not> storable (sanitizeMessageContent (Str body)) \<longrightarrow>
          trace (snd (handleMessage verify st ws (private_message b body)))
            = trace st @ [Sent ws (ErrorMsg ''Failed to send message'')]
          \<and> messages (db (snd (handleMessage verify st ws (private_message b body)))) = messages (db st))"
proof -
  let ?out = "snd (handlePrivateMessage st ws (private_message b body))"
  let ?text = "sanitizeMessageContent (Str body)"
  let ?d1 = "(db st)\<lparr>faults := tl (faults (db st))\<rparr>"
  let ?d2 = "?d1\<lparr>faults := tl (faults ?d1)\<rparr>"
  have s1: "serves 3 (db st)" "serves 2 ?d1" "serves 1 ?d2"
    using store serves_step(2) [of 2 "db st"] serves_step(2) [of 1 ?d1]
    by (simp_all add: numeral_3_eq_3 numeral_2_eq_2)
  obtain k where k: "select_buddy_edge (db st) (Some a) (Some b) = (Returned k, ?d1)"
      "k = 0 \<longleftrightarrow> \<not> buddy_edge (db st) a b"
    using select_buddy_edge_served [of 2 "db st" a b] s1(1) ids by (auto simp: numeral_3_eq_3)
  obtain j where j: "select_block ?d1 (Some b) (Some a) = (Returned j, ?d2)"
      "0 < j \<longleftrightarrow> has_blocked ?d1 b a"
    using select_block_served [of 1 ?d1 a b] s1(2) ids by (auto simp: numeral_2_eq_2)
  have blocked: "has_blocked ?d1 b a = has_blocked (db st) b a"
    by (simp add: has_blocked_def)
  have refusals:
    "(\<not> buddy_edge (db st) a b \<longrightarrow>
        trace ?out = trace st @ [Sent ws (ErrorMsg ''You can only message your buddies'')]
        \<and> messages (db ?out) = messages (db st))
     \<and> (buddy_edge (db st) a b \<and> has_blocked (db st) b a \<longrightarrow>
        trace ?out = trace st @ [Sent ws (ErrorMsg ''Cannot send message to this user'')]
        \<and> messages (db ?out) = messages (db st))"
    using k j blocked valid sender reply
    by (auto simp: handlePrivateMessage_def handlePrivateMessage_try_def private_message_props
          ws_send_def Let_def
          simp del: validateMessageContent.simps sanitizeMessageContent.simps)
  have stored:
    "messages (db ?out) = messages (db st) @ [stored_row st a b body]
     \<and> (\<exists>rest. trace ?out = trace st @ Sent ws (confirmation st a body) # rest)"
    if friends: "buddy_edge (db st) a b" "\<not> has_blocked (db st) b a" and fits: "storable ?text"
  proof -
    have "a \<noteq> b" using table friends(1) by (rule no_self_buddy)
    then have checks: "messages_checks (Some a) (Some b) ?text" and binds: "text_binds ?text"
      using fits by (simp_all add: messages_checks_def storable_def)
    note ins = insert_message_served [of 0 ?d2, OF _ ids binds checks, of "clock st"]
    show ?thesis
      using k j blocked ins s1(3) valid sender reply friends
      by (auto simp: handlePrivateMessage_def handlePrivateMessage_try_def private_message_props
            ws_send_def Let_def stored_row_def confirmation_def
            simp del: validateMessageContent.simps sanitizeMessageContent.simps
            split: option.splits)
  qed
  have rejected:
    "trace ?out = trace st @ [Sent ws (ErrorMsg ''Failed to send message'')]
     \<and> messages (db ?out) = messages (db st)"
    if friends: "buddy_edge (db st) a b" "\<not> has_blocked (db st) b a" and unfit: "\<not> storable ?text"
  proof -
    have "a \<noteq> b" using table friends(1) by (rule no_self_buddy)
    then have refused: "\<not> serves 3 (db st) \<or> \<not> messages_checks (Some a) (Some b) ?text
        \<or> \<not> text_binds ?text"
      using unfit by (auto simp: messages_checks_def storable_def)
    have two: "serves 2 (db st)"
      using store by (simp add: numeral_3_eq_3 numeral_2_eq_2 serves_Suc_iff serves_0)
    obtain d' where
      "handlePrivateMessage_try st ws (private_message b body) = (Threw, st\<lparr>db := d'\<rparr>)"
      "messages d' = messages (db st)"
      using insert_failure_core [OF sender valid two friends refused] by blast
    then show ?thesis
      using reply by (simp add: handlePrivateMessage_def ws_send_def)
  qed
  have differ: "messages (db st) @ [stored_row st a b body] \<noteq> messages (db st)" by simp
  show ?thesis
    unfolding handleMessage_private [OF auth]
    using refusals stored rejected differ by metis
qed


lemma empty_body_checks: "\<not> messages_checks p1 p2 []"
  by (simp add: messages_checks_def)

lemma empty_body_valid: "validateMessageContent (Str [])"
  by (simp add: dangerousPatterns_def specialCharRatio_def on_handler_here_def js_def)

lemma empty_body_sanitized: "sanitizeMessageContent (Str []) = []"
  by (simp add: escapeHtml_def replaceAll_def trim_def)

text \<open>
  Claim C10, as amended. The empty string passes \<open>validateMessageContent\<close>: the ratio
  is \<open>NaN\<close>, the test against 0.3 is false and no dangerous pattern matches. An empty
  body passes \<open>validateMessageStructure\<close>. The router then reaches the insert, where the
  constraint \<open>length(message) BETWEEN 1 AND 1000\<close> rejects the row: nothing is stored and
  the sender receives the failure reply.
\<close>

theorem empty_body_reaches_insert:
  "validateMessageContent (Str [])
   \<and> specialCharRatio [] = NaN \<and> \<not> exceeds_three_tenths NaN
   \<and> \<not> list_ex (\<lambda>pattern. somewhere pattern []) dangerousPatterns
   \<and> validateMessageStructure (private_message b [])
   \<and> (isAuthenticated (sockets st ws) \<and> userId (sockets st ws) = Some a
        \<and> serves 2 (db st) \<and> buddy_edge (db st) a b \<and> \<not> has_blocked (db st) b a
        \<and> \<not> sendThrows (sockets st ws)
      \<longrightarrow> messages (db (snd (handleMessage verify st ws (private_message b [])))) = messages (db st)
        \<and> trace (snd (handleMessage verify st ws (private_message b [])))
            = trace st @ [Sent ws (ErrorMsg ''Failed to send message'')])"
proof -
  have shape: "validateMessageStructure (private_message b [])"
    by (simp add: validateMessageStructure_def private_message_def js_def)
  have patterns: "\<not> list_ex (\<lambda>pattern. somewhere pattern []) dangerousPatterns"
    by (simp add: dangerousPatterns_def on_handler_here_def js_def)
  have router:
    "messages (db (snd (handleMessage verify st ws (private_message b [])))) = messages (db st)
     \<and> trace (snd (handleMessage verify st ws (private_message b [])))
         = trace st @ [Sent ws (ErrorMsg ''Failed to send message'')]"
    if h: "isAuthenticated (sockets st ws)" "userId (sockets st ws) = Some a"
      "serves 2 (db st)" "buddy_edge (db st) a b" "\<not> has_blocked (db st) b a"
      "\<not> sendThrows (sockets st ws)"
  proof -
    have refused: "\<not> serves 3 (db st)
        \<or> \<not> messages_checks (Some a) (Some b) (sanitizeMessageContent (Str []))
        \<or> \<not> text_binds (sanitizeMessageContent (Str []))"
      by (simp only: empty_body_sanitized empty_body_checks simp_thms)
    obtain d' where
      "handlePrivateMessage_try st ws (private_message b []) = (Threw, st\<lparr>db := d'\<rparr>)"
      "messages d' = messages (db st)"
      using insert_failure_core [OF h(2) empty_body_valid h(3) h(4) h(5)] refused by blast
    then show ?thesis
      unfolding handleMessage_private [OF h(1)] using h(6)
      by (simp add: handlePrivateMessage_def ws_send_def)
  qed
  show ?thesis
    using empty_body_valid shape patterns router
    by (simp add: specialCharRatio_def del: validateMessageContent.simps)
qed

lemmas example_defs = example_server_def example_db_def example_socket_def fresh_socket_def
lemmas content_defs = dangerousPatterns_def specialCharRatio_def on_handler_here_def special_char_def
  fold_ascii_def word_char_def trim_def escapeHtml_def replaceAll_def js_space_def js_def
lemmas store_defs = db_reach_def select_buddy_edge_def select_block_def insert_message_def
  messages_checks_def int4_def text_binds_def
lemmas router_defs = handleMessage_def handlePrivateMessage_def handlePrivateMessage_try_def
  ws_send_def open_connection_def private_message_def

lemma example_facts:
  "isAuthenticated (sockets example_server 1)" "userId (sockets example_server 1) = Some 1"
  "\<not> sendThrows (sockets example_server 1)"
  "buddy_edge (db example_server) 1 2" "\<not> has_blocked (db example_server) 2 1"
  "serves 3 (db example_server)" "serves 2 (db example_server)"
  by (simp_all add: example_defs buddy_edge_def has_blocked_def serves_def)

lemma hello_facts:
  "validateMessageContent (Str (js ''hello''))"
  "sanitizeMessageContent (Str (js ''hello'')) = js ''hello''"
  "pg_length (js ''hello'') = 5"
  by (simp_all add: content_defs)

lemma example_ids: "int4 (Some 1)" "int4 (Some 2)" "buddies_checks (db example_server)"
  by (simp_all add: int4_def buddies_checks_def example_defs)

lemma nul_facts:
  "validateMessageContent (Str [97, 0, 98])"
  "sanitizeMessageContent (Str [97, 0, 98]) = [97, 0, 98]"
  "\<not> storable [97, 0, 98]"
  by (simp_all add: content_defs storable_def text_binds_def)

theorem private_message_outcome_witness:
  "isAuthenticated (sockets example_server 1) \<and> userId (sockets example_server 1) = Some 1
   \<and> serves 3 (db example_server) \<and> buddies_checks (db example_server)
   \<and> buddy_edge (db example_server) 1 2 \<and> \<not> has_blocked (db example_server) 2 1
   \<and> validateMessageContent (Str (js ''hello'')) \<and> storable (sanitizeMessageContent (Str (js ''hello'')))
   \<and> messages (db (snd (handleMessage example_verify example_server 1 (private_message 2 (js ''hello'')))))
       = messages (db example_server) @ [stored_row example_server 1 2 (js ''hello'')]
   \<and> validateMessageContent (Str [97, 0, 98]) \<and> \<not> storable (sanitizeMessageContent (Str [97, 0, 98]))
   \<and> messages (db (snd (handleMessage example_verify example_server 1 (private_message 2 [97, 0, 98]))))
       = messages (db example_server)
   \<and> trace (snd (handleMessage example_verify example_server 1 (private_message 2 [97, 0, 98])))
       = trace example_server @ [Sent 1 (ErrorMsg ''Failed to send message'')]"
proof -
  have fits: "storable (sanitizeMessageContent (Str (js ''hello'')))"
    by (simp only: hello_facts storable_def text_binds_def) (simp add: js_def)
  have unfit: "\<not> storable (sanitizeMessageContent (Str [97, 0, 98]))"
    by (simp only: nul_facts not_False_eq_True)
  note hello = private_message_outcome [OF example_facts(1) example_facts(2) hello_facts(1)
      example_ids example_facts(6) example_facts(3), of example_verify]
  note nul = private_message_outcome [OF example_facts(1) example_facts(2) nul_facts(1)
      example_ids example_facts(6) example_facts(3), of example_verify]
  show ?thesis
    using hello nul example_facts example_ids(3) hello_facts(1) nul_facts(1) fits unfit
    by blast
qed

text \<open>
  A recipient id beyond \<open>INTEGER\<close> fails the buddy query itself: the reply is the failure
  error, not the not-buddies error.
\<close>

lemma recipient_out_of_range:
  "\<not> int4 (Some 2147483648)
   \<and> trace (snd (handleMessage example_verify example_server 1 (private_message 2147483648 (js ''hello''))))
       = [Sent 1 (ErrorMsg ''Failed to send message'')]"
  by (simp add: example_defs content_defs store_defs router_defs)

text \<open>
  Claim C1 as stated fails twice. User 3 is no buddy of user 2 and is blocked by user 2:
  the reply is the not-buddies error, not the blocked error. Users 1 and 2 are buddies
  without a block, and three spaces are valid content: the sanitised body is empty, the
  table constraint rejects the row, nothing is stored and no confirmation is sent.
\<close>

theorem private_message_counterexample:
  "(\<not> buddy_edge example_db 3 2 \<and> has_blocked example_db 2 3
     \<and> validateMessageContent (Str (js ''hello''))
     \<and> trace (snd (handleMessage example_verify example_server 3 (private_message 2 (js ''hello''))))
         = [Sent 3 (ErrorMsg ''You can only message your buddies'')])
   \<and> (buddy_edge example_db 1 2 \<and> \<not> has_blocked example_db 2 1
     \<and> validateMessageContent (Str (js ''   ''))
     \<and> messages (db (snd (handleMessage example_verify example_server 1 (private_message 2 (js ''   ''))))) = []
     \<and> trace (snd (handleMessage example_verify example_server 1 (private_message 2 (js ''   ''))))
         = [Sent 1 (ErrorMsg ''Failed to send message'')])"
proof -
  have "\<not> buddy_edge example_db 3 2" "has_blocked example_db 2 3"
    "buddy_edge example_db 1 2" "\<not> has_blocked example_db 2 1"
    by (simp_all add: example_defs buddy_edge_def has_blocked_def)
  moreover have "validateMessageContent (Str (js ''   ''))"
    by (simp add: content_defs)
  moreover have "trace (snd (handleMessage example_verify example_server 3 (private_message 2 (js ''hello''))))
      = [Sent 3 (ErrorMsg ''You can only message your buddies'')]"
    by (simp add: example_defs content_defs store_defs router_defs)
  moreover have "messages (db (snd (handleMessage example_verify example_server 1 (private_message 2 (js ''   ''))))) = []"
    by (simp add: example_defs content_defs store_defs router_defs)
  moreover have "trace (snd (handleMessage example_verify example_server 1 (private_message 2 (js ''   ''))))
      = [Sent 1 (ErrorMsg ''Failed to send message'')]"
    by (simp add: example_defs content_defs store_defs router_defs)
  ultimately show ?thesis using hello_facts(1) by blast
qed


theorem empty_body_reaches_insert_witness:
  "isAuthenticated (sockets example_server 1) \<and> userId (sockets example_server 1) = Some 1
   \<and> serves 2 (db example_server) \<and> buddy_edge (db example_server) 1 2
   \<and> \<not> has_blocked (db example_server) 2 1 \<and> \<not> sendThrows (sockets example_server 1)
   \<and> messages (db (snd (handleMessage example_verify example_server 1 (private_message 2 [])))) = []
   \<and> trace (snd (handleMessage example_verify example_server 1 (private_message 2 [])))
       = [Sent 1 (ErrorMsg ''Failed to send message'')]"
proof -
  have "messages (db example_server) = []" "trace example_server = []"
    by (simp_all add: example_defs)
  then show ?thesis
    using empty_body_reaches_insert [of 2 example_server 1 1 example_verify] example_facts
    by simp
qed

text \<open>
  Claim C10 as stated fails in its last part: between two buddies without a block and
  with a working datastore, the empty body is not stored.
\<close>

theorem empty_body_not_persisted:
  "validateMessageContent (Str [])
   \<and> validateMessageStructure (private_message 2 [])
   \<and> buddy_edge example_db 1 2 \<and> \<not> has_blocked example_db 2 1
   \<and> messages (db (snd (handleMessage example_verify example_server 1 (private_message 2 [])))) = []
   \<and> trace (snd (handleMessage example_verify example_server 1 (private_message 2 [])))
       = [Sent 1 (ErrorMsg ''Failed to send message'')]"
proof -
  have "validateMessageStructure (private_message 2 [])"
    by (simp add: validateMessageStructure_def private_message_def js_def)
  moreover have "buddy_edge example_db 1 2" "\<not> has_blocked example_db 2 1"
    by (simp_all add: example_defs buddy_edge_def has_blocked_def)
  moreover have "messages (db (snd (handleMessage example_verify example_server 1 (private_message 2 [])))) = []"
    by (simp add: example_defs content_defs store_defs router_defs)
  moreover have "trace (snd (handleMessage example_verify example_server 1 (private_message 2 [])))
      = [Sent 1 (ErrorMsg ''Failed to send message'')]"
    by (simp add: example_defs content_defs store_defs router_defs)
  ultimately show ?thesis using empty_body_valid by blast
qed

text \<open>A surrogate without its partner is stored as U+FFFD.\<close>

lemma lone_surrogate_row:
  "validateMessageContent (Str [55357])
   \<and> map message_text (messages (db (snd (handleMessage example_verify example_server 1
          (private_message 2 [55357]))))) = [[65533]]"
  by (simp add: example_defs content_defs store_defs router_defs Let_def)

section \<open>The message listener and the token blacklist\<close>




text \<open>
  Every payload that reaches the listener passes its size check, so the listener's own
  close with the reason \<open>Message too large\<close> is never sent; the second lemma is what the
  listener would do if it were called with a longer payload.
\<close>

lemma delivered_payload_passes_size_check:
  "length data \<le> maxPayload \<Longrightarrow>
   validateMessageSize data
   \<and> message_arrives parse verify st ws data = setupMessageHandler parse verify st ws data"
  by (simp add: message_arrives_def validateMessageSize_def MAX_MESSAGE_SIZE_def maxPayload_def)

lemma listener_size_branch:
  "\<not> validateMessageSize data \<Longrightarrow>
   setupMessageHandler parse verify st ws data
     = (Returned (), ws_close st ws 1009 ''Message too large'')"
  by (simp add: setupMessageHandler_def setupMessageHandler_try_def)

lemma validated_types:
  assumes "validateMessageStructure message"
  shows "get_prop message (js ''type'') \<in>
           {Str (js ''authenticate''), Str (js ''private_message''), Str (js ''typing_start''),
            Str (js ''typing_stop''), Str (js ''ping'')}"
  using assms unfolding validateMessageStructure_def
  by (auto split: if_splits)

text \<open>
  Claim C9. A socket has not authenticated and receives a message that passes the size,
  structure and rate checks and is neither \<open>authenticate\<close> nor \<open>ping\<close>, hence a
  \<open>private_message\<close>, \<open>typing_start\<close> or \<open>typing_stop\<close>. Then \<open>handleMessage\<close> returns
  the state it was given, and the whole listener changes nothing but the rate counter:
  no reply, no datastore statement, no delivery, no close.
\<close>

theorem unauthenticated_ignored:
  assumes "\<not> isAuthenticated (sockets st ws)"
    and "validateMessageSize data" and "parse data = Some message"
    and "validateMessageStructure message"
    and "get_prop message (js ''type'') \<noteq> Str (js ''authenticate'')"
    and "get_prop message (js ''type'') \<noteq> Str (js ''ping'')"
    and "fst (checkMessageRateLimit st (ip (sockets st ws)) (message_type message))"
  shows "handleMessage verify st ws message = (Returned (), st)
       \<and> setupMessageHandler parse verify st ws data
           = (Returned (), snd (checkMessageRateLimit st (ip (sockets st ws)) (message_type message)))
       \<and> (\<exists>rates. snd (checkMessageRateLimit st (ip (sockets st ws)) (message_type message))
              = st\<lparr>messageRates := rates\<rparr>)"
proof -
  let ?limit = "checkMessageRateLimit st (ip (sockets st ws)) (message_type message)"
  have ty: "get_prop message (js ''type'') \<in>
      {Str (js ''private_message''), Str (js ''typing_start''), Str (js ''typing_stop'')}"
    using validated_types [OF assms(4)] assms(5,6) by blast
  have ignore: "handleMessage verify st' ws message = (Returned (), st')"
    if "\<not> isAuthenticated (sockets st' ws)" for st'
    using ty that assms(5,6) by (auto simp: handleMessage_def Let_def)
  obtain rates where rates: "snd ?limit = st\<lparr>messageRates := rates\<rparr>"
    using assms(7) by (auto simp: checkMessageRateLimit_def Let_def split: if_splits)
  then have "\<not> isAuthenticated (sockets (snd ?limit) ws)"
    using assms(1) by simp
  then have "handleMessage verify (snd ?limit) ws message = (Returned (), snd ?limit)"
    by (rule ignore)
  then have "setupMessageHandler parse verify st ws data = (Returned (), snd ?limit)"
    using assms(2,3,4,7)
    by (cases ?limit) (simp add: setupMessageHandler_def setupMessageHandler_try_def)
  then show ?thesis using ignore [OF assms(1)] rates by blast
qed

text \<open>
  Claim C8. A token has been stored by \<open>addToken\<close>. A later \<open>isTokenBlacklisted\<close> on the
  same token hashes it with a salt of its own; when that salt is none of the stored ones
  and the datastore answers, the lookup finds no row and the answer is false, although the
  token is on the blacklist.
\<close>

theorem blacklist_never_matches:
  assumes "addToken bf decode drawn1 d token = (True, d1)"
    and "drawn2 \<notin> salt ` fst ` set (token_blacklist d1)"
    and "fst (blacklist_reach d1)"
  shows "(\<exists>expires. (bcrypt_hash bf drawn1 token 10, expires) \<in> set (token_blacklist d1))
       \<and> \<not> fst (isTokenBlacklisted bf drawn2 d1 token)"
proof -
  have "\<exists>expires. (bcrypt_hash bf drawn1 token 10, expires) \<in> set (token_blacklist d1)"
    using assms(1)
    by (auto simp: addToken_def blacklist_reach_def Let_def split: option.splits if_splits bool.splits)
  moreover have "filter (\<lambda>(h, expires_at). h = bcrypt_hash bf drawn2 token 10 \<and> expires_at > db_now d1)
                   (token_blacklist d1) = []"
    using assms(2) by (force simp: filter_empty_conv bcrypt_hash_def)
  then have "\<not> fst (isTokenBlacklisted bf drawn2 d1 token)"
    using assms(3) by (simp add: isTokenBlacklisted_def blacklist_reach_def Let_def split: bool.splits)
  ultimately show ?thesis by blast
qed

theorem unauthenticated_ignored_witness:
  "\<not> isAuthenticated (sockets unauthenticated_server 4)
   \<and> validateMessageSize [1]
   \<and> validateMessageStructure (private_message 2 (js ''hello''))
   \<and> fst (setupMessageHandler example_parse example_verify unauthenticated_server 4 [1]) = Returned ()
   \<and> trace (snd (setupMessageHandler example_parse example_verify unauthenticated_server 4 [1])) = []
   \<and> db (snd (setupMessageHandler example_parse example_verify unauthenticated_server 4 [1])) = example_db
   \<and> readyState (sockets (snd (setupMessageHandler example_parse example_verify unauthenticated_server 4 [1])) 4) = 1"
proof -
  let ?m = "private_message 2 (js ''hello'')"
  have h: "\<not> isAuthenticated (sockets unauthenticated_server 4)"
    "validateMessageSize [1]" "example_parse [1] = Some ?m"
    by (simp_all add: unauthenticated_server_def example_server_def fresh_socket_def
          validateMessageSize_def MAX_MESSAGE_SIZE_def example_parse_def)
  have shape: "validateMessageStructure ?m"
    by (simp add: validateMessageStructure_def private_message_def js_def)
  have ty: "get_prop ?m (js ''type'') \<noteq> Str (js ''authenticate'')"
    "get_prop ?m (js ''type'') \<noteq> Str (js ''ping'')"
    by (simp_all add: private_message_def js_def)
  have rate: "fst (checkMessageRateLimit unauthenticated_server
                    (ip (sockets unauthenticated_server 4)) (message_type ?m))"
    by (simp add: checkMessageRateLimit_def unauthenticated_server_def example_server_def
          getMessageRateLimit_def Let_def)
  have before: "trace unauthenticated_server = []" "db unauthenticated_server = example_db"
    "readyState (sockets unauthenticated_server 4) = 1"
    by (simp_all add: unauthenticated_server_def example_server_def fresh_socket_def)
  show ?thesis
    using unauthenticated_ignored [where parse = example_parse and verify = example_verify,
        OF h(1) h(2) h(3) shape ty rate]
      h(1) h(2) shape before
    by auto
qed

theorem blacklist_never_matches_witness:
  "addToken (\<lambda>rounds drawn token. 0) (\<lambda>token. Some 100) 1 empty_blacklist (js ''t'')
     = (True, empty_blacklist\<lparr>token_blacklist := [(\<lparr>cost = 10, salt = 1, digest = 0\<rparr>, 100000)]\<rparr>)
   \<and> \<not> fst (isTokenBlacklisted (\<lambda>rounds drawn token. 0) 2
              (empty_blacklist\<lparr>token_blacklist := [(\<lparr>cost = 10, salt = 1, digest = 0\<rparr>, 100000)]\<rparr>)
              (js ''t''))"
proof -
  let ?d1 = "empty_blacklist\<lparr>token_blacklist := [(\<lparr>cost = 10, salt = 1, digest = 0\<rparr>, 100000)]\<rparr>"
  have stored: "addToken (\<lambda>rounds drawn token. 0) (\<lambda>token. Some 100) 1 empty_blacklist (js ''t'') = (True, ?d1)"
    by (simp add: addToken_def empty_blacklist_def blacklist_reach_def bcrypt_hash_def Let_def)
  have fresh: "2 \<notin> salt ` fst ` set (token_blacklist ?d1)"
    by simp
  have up: "fst (blacklist_reach ?d1)"
    by (simp add: blacklist_reach_def empty_blacklist_def)
  show ?thesis
    using blacklist_never_matches [OF stored fresh up] stored by blast
qed

section \<open>Presence fan-out, connection limit and registry\<close>

lemma open_connection_frame [simp]:
  "open_connection (st\<lparr>trace := t\<rparr>) registry p = open_connection st registry p"
  "open_connection (st\<lparr>db := d\<rparr>) registry p = open_connection st registry p"
  by (simp_all add: open_connection_def split: option.splits)

lemma notify_rows_sends:
  "snd (notify_rows st uid status rows) =
     st\<lparr>trace := trace st @ map (status_event st uid status)
        (takeWhile (\<lambda>c. \<not> sendThrows (sockets st c))
           (List.map_filter (\<lambda>buddy. open_connection st (connections st) (Some buddy)) rows))\<rparr>"
proof (induction rows arbitrary: st)
  case Nil
  then show ?case by simp
next
  case (Cons buddy rest)
  show ?case
  proof (cases "open_connection st (connections st) (Some buddy)")
    case None
    then show ?thesis using Cons.IH [of st] by simp
  next
    case (Some buddyWs)
    show ?thesis
    proof (cases "sendThrows (sockets st buddyWs)")
      case True
      then show ?thesis using Some by (simp add: ws_send_def)
    next
      case False
      let ?st1 = "st\<lparr>trace := trace st @ [status_event st uid status buddyWs]\<rparr>"
      have "snd (notify_rows st uid status (buddy # rest)) = snd (notify_rows ?st1 uid status rest)"
        using Some False by (simp add: ws_send_def status_event_def)
      also have "\<dots> = ?st1\<lparr>trace := trace ?st1 @ map (status_event ?st1 uid status)
          (takeWhile (\<lambda>c. \<not> sendThrows (sockets ?st1 c))
             (List.map_filter (\<lambda>buddy. open_connection ?st1 (connections ?st1) (Some buddy)) rest))\<rparr>"
        by (rule Cons.IH)
      finally show ?thesis
        using Some False by (simp add: status_event_def)
    qed
  qed
qed

text \<open>
  Claim C6, as amended. \<open>notifyBuddiesStatusChange\<close> sends the event to the open
  connections of the user's buddies in the order of the buddy rows, up to the first
  connection whose \<open>send\<close> raises. A buddy without an open connection is skipped. The
  exception is caught by the one \<open>try\<close> around the loop, so it ends the fan-out: the
  buddies after it receive nothing. Nothing is sent when the buddy query fails.
\<close>

theorem fanout_stops_at_first_exception:
  "trace (notifyBuddiesStatusChange st uid status) =
     trace st @ map (status_event st uid status)
       (takeWhile (\<lambda>c. \<not> sendThrows (sockets st c)) (fanout_targets st uid))"
proof (cases "fst (db_reach (db st))")
  case True
  then show ?thesis
    by (simp add: notifyBuddiesStatusChange_def select_buddies_of_def fanout_targets_def
          notify_rows_sends status_event_def db_reach_def split: bool.splits)
next
  case False
  then show ?thesis
    by (simp add: notifyBuddiesStatusChange_def select_buddies_of_def fanout_targets_def
          db_reach_def split: bool.splits)
qed

theorem fanout_stops_at_first_exception_witness:
  "fanout_targets example_server 1 = [2, 3]
   \<and> trace (notifyBuddiesStatusChange example_server 1 ''away'')
       = [Sent 2 (BuddyStatusChange 1 ''away'' 5000), Sent 3 (BuddyStatusChange 1 ''away'' 5000)]
   \<and> fanout_targets raising_buddy 1 = [2, 3]
   \<and> trace (notifyBuddiesStatusChange raising_buddy 1 ''away'') = []"
proof -
  have t: "fanout_targets example_server 1 = [2, 3]" "fanout_targets raising_buddy 1 = [2, 3]"
    by (simp_all add: fanout_targets_def raising_buddy_def example_server_def example_db_def
          example_socket_def db_reach_def open_connection_def)
  have s: "\<not> sendThrows (sockets example_server 2)" "\<not> sendThrows (sockets example_server 3)"
    "sendThrows (sockets raising_buddy 2)"
    "trace example_server = []" "trace raising_buddy = []" "clock example_server = 5000"
    by (simp_all add: raising_buddy_def example_server_def example_socket_def)
  show ?thesis
    using fanout_stops_at_first_exception [of example_server 1 "''away''"]
      fanout_stops_at_first_exception [of raising_buddy 1 "''away''"] t s
    by (simp add: status_event_def)
qed

text \<open>
  Claim C6 as stated fails: user 1 has the buddies 2 and 3, both connected; the send to
  user 2 raises, and the event is not sent to user 3, whose socket is open and accepts
  sends.
\<close>

theorem fanout_aborted_by_exception:
  "(1, 3) \<in> set (buddies (db raising_buddy))
   \<and> connections raising_buddy 3 = Some 3
   \<and> readyState (sockets raising_buddy 3) = 1
   \<and> \<not> sendThrows (sockets raising_buddy 3)
   \<and> sendThrows (sockets raising_buddy 2)
   \<and> Sent 3 (BuddyStatusChange 1 ''away'' 5000) \<notin> set (trace (notifyBuddiesStatusChange raising_buddy 1 ''away''))"
  by (simp add: raising_buddy_def example_server_def example_db_def example_socket_def
        notifyBuddiesStatusChange_def select_buddies_of_def db_reach_def open_connection_def
        ws_send_def)

lemma ws_close_frame [simp]:
  "db (ws_close st c code reason) = db st"
  "wsConnections (ws_close st c code reason) = wsConnections st"
  "connections (ws_close st c code reason) = connections st"
  "userConnections (ws_close st c code reason) = userConnections st"
  "messageRates (ws_close st c code reason) = messageRates st"
  "clock (ws_close st c code reason) = clock st"
  "trace (ws_close st c code reason) = trace st @ [CloseCalled c code reason]"
  by (simp_all add: ws_close_def)

lemma notify_frame [simp]:
  "sockets (notifyBuddiesStatusChange st uid status) = sockets st"
  "wsConnections (notifyBuddiesStatusChange st uid status) = wsConnections st"
  "connections (notifyBuddiesStatusChange st uid status) = connections st"
  "userConnections (notifyBuddiesStatusChange st uid status) = userConnections st"
  by (simp_all add: notifyBuddiesStatusChange_def notify_rows_sends split: prod.splits completion.splits)

lemma register_frame [simp]:
  "db (registerWebSocketConnection st uid ws) = db st"
  "connections (registerWebSocketConnection st uid ws) = connections st"
  "userConnections (registerWebSocketConnection st uid ws) = userConnections st"
  "wsConnections (registerWebSocketConnection st uid ws) = (wsConnections st)(uid \<mapsto> ws)"
  by (simp_all add: registerWebSocketConnection_def Let_def split: option.splits)

lemma disconnect_frame [simp]:
  "db (disconnectUserWebSocket st uid) = db st"
  "connections (disconnectUserWebSocket st uid) = connections st"
  "userConnections (disconnectUserWebSocket st uid) = userConnections st"
  "wsConnections (disconnectUserWebSocket st uid) = (wsConnections st)(uid := None)"
  by (auto simp: disconnectUserWebSocket_def Let_def split: option.splits)

text \<open>
  The close listener never lowers the per-user counter: \<open>removeUserConnection\<close> is not
  called.
\<close>

lemma close_event_keeps_counts: "userConnections (close_event st ws) = userConnections st"
  by (simp add: close_event_def setupCloseHandler_def Let_def split: option.splits prod.splits completion.splits)

lemma over_limit_refused:
  assumes "t \<noteq> []" and "verify t = Some decoded" and "token_type decoded = js ''access''"
    and "userConnections st (token_id decoded) = Some n" and "n \<ge> 3"
  shows "handleAuthentication verify st ws (Str t)
           = (Returned (), ws_close st ws 1008 ''Too many connections for this user'')"
  using assms
  by (simp add: handleAuthentication_def handleAuthentication_try_def checkUserConnectionLimit_def
        MAX_CONNECTIONS_PER_USER_def)

lemmas session_defs = session_def handleAuthentication_def handleAuthentication_try_def
   checkUserConnectionLimit_def MAX_CONNECTIONS_PER_USER_def example_verify_def js_def idle_server_def Let_def
   update_status_def db_reach_def example_db_def ws_send_def fresh_socket_def
   close_event_def setupCloseHandler_def disconnectUserWebSocket_def ws_close_def
   notifyBuddiesStatusChange_def select_buddies_of_def open_connection_def registerWebSocketConnection_def

lemma three_sessions_facts:
  "wsConnections three_sessions 1 = None" "connections three_sessions 1 = None"
  "readyState (sockets three_sessions 10) = 3" "readyState (sockets three_sessions 11) = 3"
  "readyState (sockets three_sessions 12) = 3" "userConnections three_sessions 1 = Some 3"
  by (simp_all add: three_sessions_def session_defs)

text \<open>
  Claim C5 against the code. After three sessions of user 1 that have all closed, the user
  has no registered connection and the three sockets are closed, yet the counter still
  reads 3 and a fourth authentication is refused with the too-many-connections close.
\<close>

theorem closed_connections_still_counted:
  "wsConnections three_sessions 1 = None \<and> connections three_sessions 1 = None
   \<and> readyState (sockets three_sessions 10) = 3 \<and> readyState (sockets three_sessions 11) = 3
   \<and> readyState (sockets three_sessions 12) = 3
   \<and> userConnections three_sessions 1 = Some 3
   \<and> handleAuthentication example_verify three_sessions 13 (Str (js ''token-of-1''))
       = (Returned (), ws_close three_sessions 13 1008 ''Too many connections for this user'')"
proof -
  let ?decoded = "\<lparr>token_id = 1, token_email = js ''one@example.org'', token_type = js ''access''\<rparr>"
  have "js ''token-of-1'' \<noteq> []" by (simp add: js_def)
  moreover have "example_verify (js ''token-of-1'') = Some ?decoded"
    by (simp add: example_verify_def)
  moreover have "token_type ?decoded = js ''access''" by simp
  moreover have "userConnections three_sessions (token_id ?decoded) = Some 3"
    using three_sessions_facts(6) by simp
  ultimately have "handleAuthentication example_verify three_sessions 13 (Str (js ''token-of-1''))
       = (Returned (), ws_close three_sessions 13 1008 ''Too many connections for this user'')"
    by (rule over_limit_refused) simp
  then show ?thesis using three_sessions_facts by simp
qed

text \<open>
  Claim C2. When \<open>c1\<close> is registered for the user, \<open>registerWebSocketConnection\<close> first
  calls \<open>close\<close> on \<open>c1\<close>, while \<open>c1\<close> is still the registered connection, and then
  installs \<open>c2\<close>. Afterwards the registry holds exactly the entry \<open>c2\<close> for the user, and
  no user id has more than one entry.
\<close>

theorem register_evicts_previous:
  assumes "wsConnections st uid = Some c1"
  shows "registerWebSocketConnection st uid c2
           = (ws_close st c1 1000 ''New connection established'')\<lparr>wsConnections := (wsConnections st)(uid \<mapsto> c2)\<rparr>
       \<and> wsConnections (ws_close st c1 1000 ''New connection established'') uid = Some c1
       \<and> trace (registerWebSocketConnection st uid c2)
           = trace st @ [CloseCalled c1 1000 ''New connection established'']
       \<and> (readyState (sockets st c1) = 1 \<longrightarrow>
            readyState (sockets (registerWebSocketConnection st uid c2) c1) = 2)
       \<and> {c. wsConnections (registerWebSocketConnection st uid c2) uid = Some c} = {c2}
       \<and> (\<forall>u. card {c. wsConnections (registerWebSocketConnection st uid c2) u = Some c} \<le> 1)"
proof -
  have one: "card {c. m u = Some c} \<le> 1" for m :: "int \<rightharpoonup> nat" and u
    by (cases "m u") simp_all
  have "registerWebSocketConnection st uid c2
      = (ws_close st c1 1000 ''New connection established'')\<lparr>wsConnections := (wsConnections st)(uid \<mapsto> c2)\<rparr>"
    using assms by (simp add: registerWebSocketConnection_def)
  moreover have "readyState (sockets st c1) = 1 \<Longrightarrow>
      readyState (sockets (registerWebSocketConnection st uid c2) c1) = 2"
    using assms by (simp add: registerWebSocketConnection_def ws_close_def)
  moreover have "trace (registerWebSocketConnection st uid c2)
      = trace st @ [CloseCalled c1 1000 ''New connection established'']"
    using assms by (simp add: registerWebSocketConnection_def)
  ultimately show ?thesis using assms one by auto
qed

theorem register_evicts_previous_witness:
  "wsConnections example_server 1 = Some 1
   \<and> readyState (sockets example_server 1) = 1
   \<and> trace (registerWebSocketConnection example_server 1 4) = [CloseCalled 1 1000 ''New connection established'']
   \<and> readyState (sockets (registerWebSocketConnection example_server 1 4) 1) = 2
   \<and> {c. wsConnections (registerWebSocketConnection example_server 1 4) 1 = Some c} = {4}"
proof -
  have h: "wsConnections example_server 1 = Some 1" "readyState (sockets example_server 1) = 1"
    "trace example_server = []"
    by (simp_all add: example_server_def example_socket_def)
  show ?thesis
    using register_evicts_previous [OF h(1), of 4] h by (simp add: ws_close_def)
qed

lemma ws_send_frame [simp]:
  "db (snd (ws_send st c m)) = db st"
  "sockets (snd (ws_send st c m)) = sockets st"
  "wsConnections (snd (ws_send st c m)) = wsConnections st"
  "connections (snd (ws_send st c m)) = connections st"
  "userConnections (snd (ws_send st c m)) = userConnections st"
  by (simp_all add: ws_send_def)

text \<open>
  \<open>handleAuthentication\<close> reaches the registration whenever the token verifies and the
  per-user limit admits it: both registries then hold the new socket.
\<close>

lemma authentication_installs:
  assumes "t \<noteq> []" and "verify t = Some decoded" and "token_type decoded = js ''access''"
    and "fst (checkUserConnectionLimit st (token_id decoded))"
  shows "wsConnections (snd (handleAuthentication verify st ws (Str t))) (token_id decoded) = Some ws
       \<and> connections (snd (handleAuthentication verify st ws (Str t))) (token_id decoded) = Some ws"
  using assms
  by (auto simp: handleAuthentication_def handleAuthentication_try_def checkUserConnectionLimit_def
        update_status_def Let_def ws_send_def
        split: prod.splits completion.splits if_splits bool.splits)

text \<open>
  The close event of the evicted socket arrives later and runs the close listener for the
  same user id: it removes the entry of the successor.
\<close>

lemma close_event_of_evicted_socket:
  assumes "userId (sockets st c1) = Some uid" and "uid \<noteq> 0"
  shows "wsConnections (close_event (registerWebSocketConnection st uid c2) c1) uid = None"
proof -
  have "userId (sockets (registerWebSocketConnection st uid c2) c1) = Some uid"
    using assms(1) by (simp add: registerWebSocketConnection_def ws_close_def Let_def split: option.splits)
  then show ?thesis
    using assms(2)
    by (simp add: close_event_def setupCloseHandler_def Let_def update_status_def
          split: prod.splits completion.splits bool.splits)
qed

end
